theory Spec2Isabelle
  imports Main "HOL-Library.Sublist"
begin

section \<open>JavaScript values used by the extension\<close>

text \<open>
  Strings are lists of characters. A value that may be \<open>undefined\<close> or \<open>null\<close> is an
  \<open>option\<close>; \<open>truthy\<close> is JavaScript's truthiness of such a string (absent and the empty
  string are falsy). \<open>String.prototype.toLowerCase\<close> is a function of the platform (see
  the record \<open>platform\<close> below); \<open>asciiLowerCase\<close>, which folds the letters A to Z only,
  is the instance the examples run with.
\<close>

definition isUpperAscii :: "char \<Rightarrow> bool" where
  "isUpperAscii c = (65 \<le> (of_char c :: nat) \<and> (of_char c :: nat) \<le> 90)"

definition toLowerChar :: "char \<Rightarrow> char" where
  "toLowerChar c = (if isUpperAscii c then char_of ((of_char c :: nat) + 32) else c)"

definition asciiLowerCase :: "string \<Rightarrow> string" where
  "asciiLowerCase s = map toLowerChar s"

text \<open>\<open>hay.includes(needle)\<close>: some position of \<open>hay\<close> starts with \<open>needle\<close>.\<close>

fun str_includes :: "string \<Rightarrow> string \<Rightarrow> bool" where
  "str_includes [] needle = (needle = [])"
| "str_includes (c # cs) needle =
     (take (length needle) (c # cs) = needle \<or> str_includes cs needle)"

definition truthy :: "string option \<Rightarrow> bool" where
  "truthy v = (case v of None \<Rightarrow> False | Some s \<Rightarrow> s \<noteq> [])"

text \<open>\<open>a || b\<close> on possibly absent strings.\<close>

definition js_or :: "string option \<Rightarrow> string option \<Rightarrow> string option" where
  "js_or a b = (if truthy a then a else b)"

text \<open>A template literal prints an absent value as \<open>undefined\<close>.\<close>

definition tmpl :: "string option \<Rightarrow> string" where
  "tmpl v = (case v of None \<Rightarrow> ''undefined'' | Some s \<Rightarrow> s)"

definition digit_char :: "nat \<Rightarrow> char" where
  "digit_char d = char_of (48 + d)"

fun show_nat :: "nat \<Rightarrow> string" where
  "show_nat n = (if n < 10 then [digit_char n] else show_nat (n div 10) @ [digit_char (n mod 10)])"

declare show_nat.simps [simp del]

text \<open>\<open>xs.join(sep)\<close>.\<close>

fun join :: "string \<Rightarrow> string list \<Rightarrow> string" where
  "join sep [] = []"
| "join sep [x] = x"
| "join sep (x # y # ys) = x @ sep @ join sep (y # ys)"

text \<open>\<open>s.split("/")\<close>: the pieces between the separators, at least one piece.\<close>

fun split_on :: "char \<Rightarrow> string \<Rightarrow> string list" where
  "split_on sep [] = [[]]"
| "split_on sep (c # cs) =
     (if c = sep then [] # split_on sep cs
      else (case split_on sep cs of
              [] \<Rightarrow> [[c]]
            | p # ps \<Rightarrow> (c # p) # ps))"

text \<open>
  A JavaScript \<open>Map\<close> keeps its keys in insertion order, and \<open>set\<close> on a key that is
  present replaces the value where the key stands. It is an association list with
  distinct keys.
\<close>

type_synonym ('k, 'v) js_map = "('k \<times> 'v) list"

fun map_set :: "'k \<Rightarrow> 'v \<Rightarrow> ('k, 'v) js_map \<Rightarrow> ('k, 'v) js_map" where
  "map_set k v [] = [(k, v)]"
| "map_set k v ((k', v') # m) =
     (if k' = k then (k, v) # m else (k', v') # map_set k v m)"

definition map_get :: "('k, 'v) js_map \<Rightarrow> 'k \<Rightarrow> 'v option" where
  "map_get m k = map_of m k"

definition map_keys :: "('k, 'v) js_map \<Rightarrow> 'k list" where
  "map_keys m = map fst m"

text \<open>A thrown value: an \<open>Error\<close> with its message, or something that is no \<open>Error\<close>.\<close>

datatype thrown = Error string | NonError

text \<open>
  The message of the \<open>TypeError\<close> that Node's engine throws when a property of
  \<open>undefined\<close> is read.
\<close>

definition cannotReadProperty :: "string \<Rightarrow> string" where
  "cannotReadProperty prop =
     ''Cannot read properties of undefined (reading '' @ [CHR 0x27] @ prop @ [CHR 0x27] @ '')''"

section \<open>The task-board URL pattern\<close>

text \<open>
  The correlator applies \<open>/https:\/\/app\.clickup\.com\/t\/[\w-]+/\<close> with
  \<open>String.prototype.match\<close>: the leftmost position where the fixed prefix is followed by
  at least one of \<open>[A-Za-z0-9_-]\<close>, extended greedily.
\<close>

definition isWordChar :: "char \<Rightarrow> bool" where
  "isWordChar c =
     (let n = (of_char c :: nat)
      in (48 \<le> n \<and> n \<le> 57) \<or> (65 \<le> n \<and> n \<le> 90) \<or> (97 \<le> n \<and> n \<le> 122) \<or> n = 95)"

definition isTailChar :: "char \<Rightarrow> bool" where
  "isTailChar c = (isWordChar c \<or> c = CHR ''-'')"

definition urlPrefix :: string where
  "urlPrefix = ''https://app.clickup.com/t/''"

definition matchHere :: "string \<Rightarrow> string option" where
  "matchHere s =
     (if take (length urlPrefix) s = urlPrefix
      then (let tail = takeWhile isTailChar (drop (length urlPrefix) s)
            in if tail = [] then None else Some (urlPrefix @ tail))
      else None)"

fun clickUpUrlMatch :: "string \<Rightarrow> string option" where
  "clickUpUrlMatch [] = None"
| "clickUpUrlMatch (c # cs) =
     (case matchHere (c # cs) of
        Some u \<Rightarrow> Some u
      | None \<Rightarrow> clickUpUrlMatch cs)"

text \<open>A string of the pattern's shape: the prefix and a non-empty run of tail characters.\<close>

definition isClickUpUrl :: "string \<Rightarrow> bool" where
  "isClickUpUrl u =
     (take (length urlPrefix) u = urlPrefix \<and> length urlPrefix < length u
      \<and> list_all isTailChar (drop (length urlPrefix) u))"

text \<open>
  \<open>containsUrl s\<close>: some substring of \<open>s\<close> has the shape. \<open>firstUrlOf s u\<close>: \<open>u\<close> is the
  occurrence that starts leftmost and runs as far as tail characters go.
\<close>

definition containsUrl :: "string \<Rightarrow> bool" where
  "containsUrl s = (\<exists>pre u suf. s = pre @ u @ suf \<and> isClickUpUrl u)"

definition firstUrlOf :: "string \<Rightarrow> string \<Rightarrow> bool" where
  "firstUrlOf s u =
     (\<exists>pre suf. s = pre @ u @ suf \<and> isClickUpUrl u
        \<and> (suf = [] \<or> \<not> isTailChar (hd suf))
        \<and> (\<forall>pre' u' suf'. s = pre' @ u' @ suf' \<and> isClickUpUrl u' \<longrightarrow> length pre \<le> length pre'))"

section \<open>Data model (sentry/types.ts, clickup/types.ts)\<close>

record SentryConfig =
  sentryUrl :: string
  apiToken :: string
  projectSlugs :: "string list"

text \<open>
  The fields of \<open>SentryIssue\<close> the modelled code reads. \<open>id\<close> is \<open>issue_id\<close> and
  \<open>status\<close> is \<open>issue_status\<close> here; \<open>metadata_value\<close> is \<open>metadata?.value\<close>.
\<close>

record SentryIssue =
  issue_id :: string
  title :: string
  culprit :: "string option"
  permalink :: string
  shortId :: string
  level :: string
  issue_status :: string
  count :: string
  userCount :: nat
  firstSeen :: string
  lastSeen :: string
  metadata_value :: "string option"

type_synonym IssuesByProject = "(string, SentryIssue list) js_map"

record StackFrame =
  filename :: "string option"
  absPath :: "string option"
  function_name :: "string option"
  lineNo :: "nat option"

record ExceptionValue =
  exc_type :: string
  exc_value :: string
  stacktrace_frames :: "StackFrame list option"

text \<open>An entry of an event: its \<open>type\<close> and \<open>data?.values\<close>.\<close>

record EventEntry =
  entry_type :: string
  data_values :: "ExceptionValue list option"

text \<open>
  A breadcrumb; \<open>data_json\<close> is what \<open>JSON.stringify\<close> prints for its \<open>data\<close>, when it
  has one.
\<close>

record Breadcrumb =
  timestamp :: string
  bc_type :: string
  category :: "string option"
  bc_message :: "string option"
  data_json :: "string option"

record EventTag =
  tag_key :: string
  tag_value :: string

text \<open>
  \<open>tags\<close> and \<open>breadcrumbs?.values\<close> are lists: the code treats an absent one like an
  empty one.
\<close>

record SentryEvent =
  message :: string
  tags :: "EventTag list"
  entries :: "EventEntry list"
  breadcrumbs_values :: "Breadcrumb list"

text \<open>A comment of an issue: \<open>data?.text\<close> and \<open>text\<close>.\<close>

record SentryComment =
  data_text :: "string option"
  comment_text :: "string option"

record ClickUpConfig =
  cu_apiToken :: string
  teamId :: string
  customFields :: "(string \<times> string) list"
  cfg_selectedListId :: "string option"
  completedStatusName :: string
  language :: string

record ClickUpStatus =
  status_id :: "string option"
  status :: string

record ClickUpList =
  list_id :: string
  list_name :: string
  list_statuses :: "ClickUpStatus list option"

record ClickUpTask =
  task_id :: string
  task_url :: string

text \<open>
  What \<open>updateTaskStatus\<close> reads of the task it fetches: \<open>task.list\<close> with its \<open>id\<close>
  and \<open>statuses\<close>, \<open>task.statuses\<close>, and the current \<open>task.status\<close>.
\<close>

record TaskList =
  tl_id :: "string option"
  tl_statuses :: "ClickUpStatus list option"

record TaskDetails =
  td_list :: "TaskList option"
  td_statuses :: "ClickUpStatus list option"
  td_status :: "ClickUpStatus option"

section \<open>The upstream services\<close>

text \<open>
  A failed request: axios rejects with an \<open>AxiosError\<close>, which may carry the response, or
  (rarely) with something else.
\<close>

record AxiosResponse =
  resp_status :: nat
  resp_statusText :: string
  resp_data_message :: "string option"
  resp_data_ECODE :: "string option"
  resp_data_err :: "string option"
  resp_data_json :: "string option"

datatype http_failure = AxiosError "AxiosResponse option" | OtherFailure thrown

text \<open>The parameters of the issue query.\<close>

record IssueQuery =
  statsPeriod :: string
  query :: string
  sort_key :: string
  limit :: nat

text \<open>
  Every request the clients send is appended to a log, which is the state of the world;
  an upstream answers a request knowing the log so far, so that it may answer the same
  request differently each time. \<open>GetTeamLists\<close> stands for the walk of
  \<open>ClickUpClient.getLists\<close> over spaces, folders and lists, and \<open>PostTaskComment\<close>
  carries the comment before its conversion to ClickUp's format.
\<close>

datatype request =
    GetOrgIssues string IssueQuery
  | GetLatestEvent string
  | PutIssue string string
  | PostIssueComment string string
  | GetIssueComments string
  | GetTeamLists string
  | PostTask string string string "string list"
  | PostTaskComment string string
  | GetTask string
  | GetList string
  | PutTask string string string

type_synonym world = "request list"

record upstream =
  orgIssues :: "world \<Rightarrow> string \<Rightarrow> IssueQuery \<Rightarrow> http_failure + SentryIssue list"
  latestEvent :: "world \<Rightarrow> string \<Rightarrow> http_failure + SentryEvent"
  putIssue :: "world \<Rightarrow> string \<Rightarrow> string \<Rightarrow> http_failure + unit"
  postIssueComment :: "world \<Rightarrow> string \<Rightarrow> string \<Rightarrow> http_failure + unit"
  issueComments :: "world \<Rightarrow> string \<Rightarrow> http_failure + SentryComment list"
  teamLists :: "world \<Rightarrow> string \<Rightarrow> http_failure + ClickUpList list"
  postTask :: "world \<Rightarrow> string \<Rightarrow> string \<Rightarrow> string \<Rightarrow> string list \<Rightarrow> http_failure + ClickUpTask"
  postTaskComment :: "world \<Rightarrow> string \<Rightarrow> string \<Rightarrow> http_failure + unit"
  getTask :: "world \<Rightarrow> string \<Rightarrow> http_failure + TaskDetails"
  getList :: "world \<Rightarrow> string \<Rightarrow> http_failure + ClickUpStatus list option"
  putTask :: "world \<Rightarrow> string \<Rightarrow> string \<Rightarrow> string \<Rightarrow> http_failure + unit"

section \<open>SentryClient (sentry/client.ts)\<close>

definition sentryApiError :: "http_failure \<Rightarrow> thrown" where
  "sentryApiError f =
     (case f of
        AxiosError r \<Rightarrow>
          Error (''Sentry API error: '' @ tmpl (map_option (\<lambda>x. show_nat (resp_status x)) r)
                 @ '' '' @ tmpl (map_option resp_statusText r))
      | OtherFailure t \<Rightarrow> t)"

definition issueQuery :: "string \<Rightarrow> IssueQuery" where
  "issueQuery project =
     \<lparr>statsPeriod = ''14d'', query = ''project:'' @ project @ '' is:unresolved'',
      sort_key = ''date'', limit = 25\<rparr>"

definition invalidSlugMessage :: "string \<Rightarrow> string" where
  "invalidSlugMessage projectSlug =
     ''Invalid project slug format: '' @ projectSlug @ ''. Expected: '' @ [CHR 0x27]
       @ ''organization/project'' @ [CHR 0x27]"

text \<open>\<open>const [org, project] = projectSlug.split("/")\<close>: the first two pieces.\<close>

definition slugParts :: "string \<Rightarrow> string option \<times> string option" where
  "slugParts projectSlug =
     (case split_on (CHR ''/'') projectSlug of
        [] \<Rightarrow> (None, None)
      | [a] \<Rightarrow> (Some a, None)
      | a # b # _ \<Rightarrow> (Some a, Some b))"

definition fetchProjectIssues ::
  "upstream \<Rightarrow> string \<Rightarrow> world \<Rightarrow> (thrown + SentryIssue list) \<times> world" where
  "fetchProjectIssues up projectSlug w =
     (case slugParts projectSlug of
        (Some org, Some project) \<Rightarrow>
          (if org = [] \<or> project = [] then (Inl (Error (invalidSlugMessage projectSlug)), w)
           else (case orgIssues up w org (issueQuery project) of
                   Inr issues \<Rightarrow> (Inr issues, w @ [GetOrgIssues org (issueQuery project)])
                 | Inl f \<Rightarrow> (Inl (sentryApiError f), w @ [GetOrgIssues org (issueQuery project)])))
      | _ \<Rightarrow> (Inl (Error (invalidSlugMessage projectSlug)), w))"

text \<open>The loop of \<open>fetchAllIssues\<close>: one fetch per configured slug, a failure stored as \<open>[]\<close>.\<close>

fun fetchAllIssues_loop ::
  "upstream \<Rightarrow> string list \<Rightarrow> IssuesByProject \<Rightarrow> world \<Rightarrow> IssuesByProject \<times> world" where
  "fetchAllIssues_loop up [] issuesByProject w = (issuesByProject, w)"
| "fetchAllIssues_loop up (projectSlug # rest) issuesByProject w =
     (case fetchProjectIssues up projectSlug w of
        (Inr issues, w') \<Rightarrow>
          fetchAllIssues_loop up rest (map_set projectSlug issues issuesByProject) w'
      | (Inl e, w') \<Rightarrow>
          fetchAllIssues_loop up rest (map_set projectSlug [] issuesByProject) w')"

definition fetchAllIssues :: "upstream \<Rightarrow> SentryConfig \<Rightarrow> world \<Rightarrow> IssuesByProject \<times> world" where
  "fetchAllIssues up config w = fetchAllIssues_loop up (projectSlugs config) [] w"

definition fetchLatestEvent :: "upstream \<Rightarrow> string \<Rightarrow> world \<Rightarrow> SentryEvent option \<times> world" where
  "fetchLatestEvent up issueId w =
     (case latestEvent up w issueId of
        Inr ev \<Rightarrow> (Some ev, w @ [GetLatestEvent issueId])
      | Inl f \<Rightarrow> (None, w @ [GetLatestEvent issueId]))"

text \<open>\<open>resolveIssue\<close> with its default status.\<close>

definition client_resolveIssue :: "upstream \<Rightarrow> string \<Rightarrow> world \<Rightarrow> (thrown + bool) \<times> world" where
  "client_resolveIssue up issueId w =
     (case putIssue up w issueId ''resolvedInNextRelease'' of
        Inr _ \<Rightarrow> (Inr True, w @ [PutIssue issueId ''resolvedInNextRelease''])
      | Inl f \<Rightarrow> (Inl (sentryApiError f), w @ [PutIssue issueId ''resolvedInNextRelease'']))"

definition getIssueComments :: "upstream \<Rightarrow> string \<Rightarrow> world \<Rightarrow> SentryComment list \<times> world" where
  "getIssueComments up issueId w =
     (case issueComments up w issueId of
        Inr comments \<Rightarrow> (comments, w @ [GetIssueComments issueId])
      | Inl f \<Rightarrow> ([], w @ [GetIssueComments issueId]))"

text \<open>\<open>comment.data?.text || comment.text || ""\<close>.\<close>

definition commentText :: "SentryComment \<Rightarrow> string" where
  "commentText comment =
     (case js_or (js_or (data_text comment) (comment_text comment)) (Some []) of
        Some t \<Rightarrow> t
      | None \<Rightarrow> [])"

fun firstUrlInComments :: "SentryComment list \<Rightarrow> string option" where
  "firstUrlInComments [] = None"
| "firstUrlInComments (comment # comments) =
     (case clickUpUrlMatch (commentText comment) of
        Some u \<Rightarrow> Some u
      | None \<Rightarrow> firstUrlInComments comments)"

definition parseClickUpUrlFromComments ::
  "upstream \<Rightarrow> string \<Rightarrow> world \<Rightarrow> string option \<times> world" where
  "parseClickUpUrlFromComments up issueId w =
     (case getIssueComments up issueId w of
        (comments, w') \<Rightarrow> (firstUrlInComments comments, w'))"

section \<open>ClickUpClient (clickup/client.ts)\<close>

definition clickUpApiError :: "http_failure \<Rightarrow> thrown" where
  "clickUpApiError f =
     (case f of
        AxiosError r \<Rightarrow>
          Error (''ClickUp API error: '' @ tmpl (map_option (\<lambda>x. show_nat (resp_status x)) r)
                 @ '' '' @ tmpl (map_option resp_statusText r))
      | OtherFailure t \<Rightarrow> t)"

definition getLists :: "upstream \<Rightarrow> string \<Rightarrow> world \<Rightarrow> (thrown + ClickUpList list) \<times> world" where
  "getLists up team w =
     (case teamLists up w team of
        Inr ls \<Rightarrow> (Inr ls, w @ [GetTeamLists team])
      | Inl f \<Rightarrow> (Inl (clickUpApiError f), w @ [GetTeamLists team]))"

definition client_createTask ::
  "upstream \<Rightarrow> string \<Rightarrow> string \<Rightarrow> string \<Rightarrow> string list \<Rightarrow> world
     \<Rightarrow> (thrown + ClickUpTask) \<times> world" where
  "client_createTask up listId taskName description tagNames w =
     (case postTask up w listId taskName description tagNames of
        Inr task \<Rightarrow> (Inr task, w @ [PostTask listId taskName description tagNames])
      | Inl f \<Rightarrow> (Inl (clickUpApiError f), w @ [PostTask listId taskName description tagNames]))"

definition commentApiError :: "http_failure \<Rightarrow> thrown" where
  "commentApiError f =
     (case f of
        AxiosError r \<Rightarrow>
          Error (''ClickUp API error: '' @ tmpl (map_option (\<lambda>x. show_nat (resp_status x)) r)
                 @ '' '' @ tmpl (map_option resp_statusText r)
                 @ ''. Error: '' @ tmpl (case r of None \<Rightarrow> None | Some x \<Rightarrow> resp_data_json x))
      | OtherFailure t \<Rightarrow> t)"

definition addComment :: "upstream \<Rightarrow> string \<Rightarrow> string \<Rightarrow> world \<Rightarrow> (thrown + unit) \<times> world" where
  "addComment up task comment w =
     (case postTaskComment up w task comment of
        Inr _ \<Rightarrow> (Inr (), w @ [PostTaskComment task comment])
      | Inl f \<Rightarrow> (Inl (commentApiError f), w @ [PostTaskComment task comment]))"

section \<open>The stores (stores/sentryStore.ts, stores/clickupStore.ts)\<close>

record SentryStoreState =
  issuesByProject :: IssuesByProject
  isLoading :: bool
  error :: "string option"

text \<open>
  \<open>refresh\<close> of the issue store. \<open>fetchAllIssues\<close> catches the failure of every project
  itself, so its promise never rejects and the store's \<open>catch\<close> is not reached.
\<close>

definition sentryStore_refresh ::
  "upstream \<Rightarrow> SentryConfig option \<Rightarrow> SentryStoreState \<Rightarrow> world \<Rightarrow> SentryStoreState \<times> world" where
  "sentryStore_refresh up client st w =
     (case client of
        None \<Rightarrow> (st\<lparr>issuesByProject := [], isLoading := False, error := None\<rparr>, w)
      | Some config \<Rightarrow>
          (let loading = st\<lparr>isLoading := True, error := None\<rparr>
           in case fetchAllIssues up config w of
                (fetched, w') \<Rightarrow>
                  (loading\<lparr>issuesByProject := fetched, isLoading := False, error := None\<rparr>, w')))"

definition updateIssues :: "IssuesByProject \<Rightarrow> SentryStoreState \<Rightarrow> SentryStoreState" where
  "updateIssues m st = st\<lparr>issuesByProject := m\<rparr>"

record ClickUpStoreState =
  lists :: "ClickUpList list"
  selectedListId :: "string option"
  isEnabled :: bool
  cu_isLoading :: bool
  cu_error :: "string option"
  issueTaskMap :: "(string, string) js_map"

definition errorMessage :: "thrown \<Rightarrow> string" where
  "errorMessage e = (case e of Error m \<Rightarrow> m | NonError \<Rightarrow> ''Unknown error'')"

definition firstListId :: "ClickUpList list \<Rightarrow> string option" where
  "firstListId ls = (case ls of [] \<Rightarrow> None | l # _ \<Rightarrow> Some (list_id l))"

definition clickUpStore_refresh ::
  "upstream \<Rightarrow> ClickUpConfig option \<Rightarrow> ClickUpConfig option \<Rightarrow> ClickUpStoreState \<Rightarrow> world
     \<Rightarrow> ClickUpStoreState \<times> world" where
  "clickUpStore_refresh up client config st w =
     (case (client, config) of
        (Some _, Some cfg) \<Rightarrow>
          (case getLists up (teamId cfg) w of
             (Inr ls, w') \<Rightarrow>
               (st\<lparr>lists := ls,
                   selectedListId := js_or (js_or (cfg_selectedListId cfg) (firstListId ls)) None,
                   isEnabled := True, cu_isLoading := False, cu_error := None\<rparr>, w')
           | (Inl e, w') \<Rightarrow>
               (st\<lparr>isEnabled := True, cu_isLoading := False, cu_error := Some (errorMessage e)\<rparr>, w'))
      | _ \<Rightarrow>
          (st\<lparr>lists := [],
              selectedListId :=
                js_or (case config of None \<Rightarrow> None | Some cfg \<Rightarrow> cfg_selectedListId cfg) None,
              isEnabled := False, cu_isLoading := False, cu_error := None\<rparr>, w))"

definition setTaskMapping :: "string \<Rightarrow> string \<Rightarrow> ClickUpStoreState \<Rightarrow> ClickUpStoreState" where
  "setTaskMapping issueId taskUrl st = st\<lparr>issueTaskMap := map_set issueId taskUrl (issueTaskMap st)\<rparr>"

definition store_createTask ::
  "upstream \<Rightarrow> string \<Rightarrow> string \<Rightarrow> string \<Rightarrow> string \<Rightarrow> ClickUpStoreState \<Rightarrow> world
     \<Rightarrow> (thrown + string \<times> string) \<times> ClickUpStoreState \<times> world" where
  "store_createTask up listId issueId issueTitle issueUrl st w =
     (case client_createTask up listId (''Sentry: '' @ issueTitle) (''Sentry Issue: '' @ issueUrl)
             [''Sentry AutoFix''] w of
        (Inr task, w') \<Rightarrow>
          (Inr (task_id task, task_url task),
           st\<lparr>issueTaskMap := map_set issueId (task_url task) (issueTaskMap st)\<rparr>, w')
      | (Inl e, w') \<Rightarrow> (Inl e, st, w'))"

section \<open>StoreManager (stores/storeManager.ts)\<close>

text \<open>
  The manager with the two stores it drives. The emitter carries no payload; \<open>fired\<close>
  has one entry for each \<open>emitter.fire()\<close>, holding what a subscriber reads from the
  manager at that moment: the issues by project and the issue-to-task map.
\<close>

type_synonym View = "IssuesByProject \<times> (string, string) js_map"

record StoreManager =
  sentryClient :: "SentryConfig option"
  clickUpClient :: "ClickUpConfig option"
  sentryConfig :: "SentryConfig option"
  clickUpConfig :: "ClickUpConfig option"
  sentryStore :: SentryStoreState
  clickUpStore :: ClickUpStoreState
  fired :: "View list"

definition new_StoreManager :: StoreManager where
  "new_StoreManager =
     \<lparr>sentryClient = None, clickUpClient = None, sentryConfig = None, clickUpConfig = None,
      sentryStore = \<lparr>issuesByProject = [], isLoading = False, error = None\<rparr>,
      clickUpStore = \<lparr>lists = [], selectedListId = None, isEnabled = False, cu_isLoading = False,
                      cu_error = None, issueTaskMap = []\<rparr>,
      fired = []\<rparr>"

definition fire :: "StoreManager \<Rightarrow> StoreManager" where
  "fire sm = sm\<lparr>fired := fired sm @ [(issuesByProject (sentryStore sm), issueTaskMap (clickUpStore sm))]\<rparr>"

text \<open>The body of the inner loop of \<open>refreshSentry\<close>, for one issue.\<close>

definition correlateIssue ::
  "upstream \<Rightarrow> SentryIssue \<Rightarrow> ClickUpStoreState \<Rightarrow> world \<Rightarrow> ClickUpStoreState \<times> world" where
  "correlateIssue up issue cu w =
     (case parseClickUpUrlFromComments up (issue_id issue) w of
        (Some clickUpUrl, w') \<Rightarrow>
          (if clickUpUrl \<noteq> [] then (setTaskMapping (issue_id issue) clickUpUrl cu, w') else (cu, w'))
      | (None, w') \<Rightarrow> (cu, w'))"

fun correlateIssues ::
  "upstream \<Rightarrow> SentryIssue list \<Rightarrow> ClickUpStoreState \<Rightarrow> world \<Rightarrow> ClickUpStoreState \<times> world" where
  "correlateIssues up [] cu w = (cu, w)"
| "correlateIssues up (issue # issues) cu w =
     (case correlateIssue up issue cu w of (cu', w') \<Rightarrow> correlateIssues up issues cu' w')"

fun correlateProjects ::
  "upstream \<Rightarrow> IssuesByProject \<Rightarrow> ClickUpStoreState \<Rightarrow> world \<Rightarrow> ClickUpStoreState \<times> world" where
  "correlateProjects up [] cu w = (cu, w)"
| "correlateProjects up ((project, issues) # rest) cu w =
     (case correlateIssues up issues cu w of (cu', w') \<Rightarrow> correlateProjects up rest cu' w')"

definition refreshSentry :: "upstream \<Rightarrow> StoreManager \<Rightarrow> world \<Rightarrow> StoreManager \<times> world" where
  "refreshSentry up sm w =
     (case sentryClient sm of
        None \<Rightarrow> (sm\<lparr>sentryStore := updateIssues [] (sentryStore sm)\<rparr>, w)
      | Some client \<Rightarrow>
          (case sentryStore_refresh up (Some client) (sentryStore sm) w of
             (st, w1) \<Rightarrow>
               (case correlateProjects up (issuesByProject st) (clickUpStore sm) w1 of
                  (cu, w2) \<Rightarrow> (fire (sm\<lparr>sentryStore := st, clickUpStore := cu\<rparr>), w2))))"

definition refreshClickUp :: "upstream \<Rightarrow> StoreManager \<Rightarrow> world \<Rightarrow> StoreManager \<times> world" where
  "refreshClickUp up sm w =
     (case (clickUpClient sm, clickUpConfig sm) of
        (Some client, Some config) \<Rightarrow>
          (case clickUpStore_refresh up (Some client) (Some config) (clickUpStore sm) w of
             (cu, w') \<Rightarrow> (fire (sm\<lparr>clickUpStore := cu\<rparr>), w'))
      | _ \<Rightarrow> (sm, w))"


definition initialize ::
  "upstream \<Rightarrow> SentryConfig \<Rightarrow> ClickUpConfig option \<Rightarrow> StoreManager \<Rightarrow> world
     \<Rightarrow> StoreManager \<times> world" where
  "initialize up sentryCfg clickUpCfg sm w =
     (let sm0 = sm\<lparr>sentryConfig := Some sentryCfg, clickUpConfig := clickUpCfg,
                    sentryClient := Some sentryCfg,
                    clickUpClient := (case clickUpCfg of None \<Rightarrow> clickUpClient sm | Some c \<Rightarrow> Some c)\<rparr>
      in case refreshSentry up sm0 w of
           (sm1, w1) \<Rightarrow>
             (case refreshClickUp up sm1 w1 of
                (sm2, w2) \<Rightarrow> (fire sm2, w2)))"

definition createClickUpTask ::
  "upstream \<Rightarrow> string \<Rightarrow> string \<Rightarrow> string \<Rightarrow> StoreManager \<Rightarrow> world
     \<Rightarrow> (thrown + string \<times> string) \<times> StoreManager \<times> world" where
  "createClickUpTask up issueId issueTitle issueUrl sm w =
     (case (clickUpClient sm, clickUpConfig sm) of
        (Some client, Some config) \<Rightarrow>
          (case selectedListId (clickUpStore sm) of
             None \<Rightarrow> (Inl (Error ''No ClickUp list selected''), sm, w)
           | Some listId \<Rightarrow>
               (if listId = [] then (Inl (Error ''No ClickUp list selected''), sm, w)
                else (case store_createTask up listId issueId issueTitle issueUrl (clickUpStore sm) w of
                        (Inr (taskId, taskUrl), cu, w') \<Rightarrow>
                          (Inr (taskId, taskUrl),
                           sm\<lparr>clickUpStore := setTaskMapping issueId taskUrl cu\<rparr>, w')
                      | (Inl e, cu, w') \<Rightarrow> (Inl e, sm\<lparr>clickUpStore := cu\<rparr>, w'))))
      | _ \<Rightarrow> (Inl (Error ''ClickUp is not configured''), sm, w))"

definition getClickUpTaskUrl :: "StoreManager \<Rightarrow> string \<Rightarrow> string option" where
  "getClickUpTaskUrl sm issueId = map_get (issueTaskMap (clickUpStore sm)) issueId"

section \<open>IssueStore (the store with the refresh guard)\<close>

text \<open>
  \<open>cache\<close> is the workspace-state entry \<open>sentryIssues\<close> (its data; the timestamp is not
  modelled); \<open>is_fired\<close> has the payload of every \<open>emitter.fire\<close>.
\<close>

record IssueStore =
  is_issuesByProject :: IssuesByProject
  is_sentryClient :: "SentryConfig option"
  isRefreshing :: bool
  cache :: "IssuesByProject option"
  is_fired :: "IssuesByProject list"

text \<open>
  \<open>refresh\<close> is an async function with two suspension points: \<open>await fetchAllIssues()\<close>
  and \<open>await saveToCache()\<close>. A caller is in one of three phases.
\<close>

datatype phase = AwaitFetch SentryConfig | AwaitSave | Returned IssuesByProject

text \<open>The part of \<open>refresh\<close> that runs when it is called, up to the first \<open>await\<close>.\<close>

definition refresh_call :: "IssueStore \<Rightarrow> phase \<times> IssueStore" where
  "refresh_call s =
     (case is_sentryClient s of
        None \<Rightarrow> (Returned [], s\<lparr>is_issuesByProject := [], is_fired := is_fired s @ [[]]\<rparr>)
      | Some client \<Rightarrow>
          (if isRefreshing s then (Returned (is_issuesByProject s), s)
           else (AwaitFetch client, s\<lparr>isRefreshing := True\<rparr>)))"

text \<open>
  The part after \<open>fetchAllIssues\<close> has resolved with \<open>result\<close>: the mapping is assigned
  and \<open>saveToCache\<close> writes it to the workspace state.
\<close>

definition refresh_fetched :: "IssuesByProject \<Rightarrow> IssueStore \<Rightarrow> phase \<times> IssueStore" where
  "refresh_fetched result s = (AwaitSave, s\<lparr>is_issuesByProject := result, cache := Some result\<rparr>)"

text \<open>The part after \<open>saveToCache\<close>: fire, return the mapping, and the \<open>finally\<close> block.\<close>

definition refresh_saved :: "IssueStore \<Rightarrow> phase \<times> IssueStore" where
  "refresh_saved s =
     (Returned (is_issuesByProject s),
      s\<lparr>is_fired := is_fired s @ [is_issuesByProject s], isRefreshing := False\<rparr>)"

text \<open>
  The event loop: a new caller calls \<open>refresh\<close>, or the pending fetch or save of caller
  \<open>i\<close> completes. \<open>callers\<close> has the phase of every caller, in the order of the calls. The
  requests of a fetch enter the log when the fetch completes.
\<close>

datatype event = Call | FetchDone nat | SaveDone nat

record loop_state =
  store :: IssueStore
  callers :: "phase list"
  log :: world

definition exec :: "upstream \<Rightarrow> event \<Rightarrow> loop_state \<Rightarrow> loop_state" where
  "exec up e st =
     (case e of
        Call \<Rightarrow>
          (case refresh_call (store st) of
             (ph, s') \<Rightarrow> st\<lparr>store := s', callers := callers st @ [ph]\<rparr>)
      | FetchDone i \<Rightarrow>
          (if i < length (callers st)
           then (case callers st ! i of
                   AwaitFetch client \<Rightarrow>
                     (case fetchAllIssues up client (log st) of
                        (result, w') \<Rightarrow>
                          (case refresh_fetched result (store st) of
                             (ph, s') \<Rightarrow>
                               st\<lparr>store := s', callers := (callers st)[i := ph], log := w'\<rparr>))
                 | _ \<Rightarrow> st)
           else st)
      | SaveDone i \<Rightarrow>
          (if i < length (callers st)
           then (case callers st ! i of
                   AwaitSave \<Rightarrow>
                     (case refresh_saved (store st) of
                        (ph, s') \<Rightarrow> st\<lparr>store := s', callers := (callers st)[i := ph]\<rparr>)
                 | _ \<Rightarrow> st)
           else st))"

fun run :: "upstream \<Rightarrow> event list \<Rightarrow> loop_state \<Rightarrow> loop_state" where
  "run up [] st = st"
| "run up (e # es) st = run up es (exec up e st)"

section \<open>Functions of the platform\<close>

text \<open>
  The diagnostics object that \<open>updateTaskStatus\<close> prints into its error message.
\<close>

record StatusDiagnostics =
  diag_requestedStatus :: string
  diag_availableStatuses :: "(string \<times> string option) list"
  diag_taskHasStatuses :: bool
  diag_taskHasListStatuses :: bool
  diag_statusSource :: string

text \<open>
  Library functions the code calls and this development does not define:
  \<open>String.prototype.toLowerCase\<close> (which folds every letter that has a lower case, not
  only the ASCII ones), the locale's rendering of a date
  (\<open>new Date(x).toLocaleString()\<close>, \<open>toLocaleTimeString()\<close>), \<open>JSON.stringify\<close> of the
  diagnostics, and \<open>JSON.parse\<close> of the custom-field variable (\<open>Inl\<close> is the message of
  the \<open>SyntaxError\<close> it throws). Every theorem below holds for any such functions.
\<close>

record platform =
  toLowerCase :: "string \<Rightarrow> string"
  toLocaleString :: "string \<Rightarrow> string"
  toLocaleTimeString :: "string \<Rightarrow> string"
  stringifyDiagnostics :: "StatusDiagnostics \<Rightarrow> string"
  parseCustomFields :: "string \<Rightarrow> string + (string \<times> string) list"

definition nl :: string where
  "nl = [CHR 0x0A]"

definition dquote :: string where
  "dquote = [CHR 0x22]"

text \<open>The check mark U+2705 that opens the success messages, in UTF-8.\<close>

definition checkMark :: string where
  "checkMark = [CHR 0xE2, CHR 0x9C, CHR 0x85]"

section \<open>ClickUpClient.updateTaskStatus\<close>

definition listOr :: "'a list option \<Rightarrow> 'a list" where
  "listOr v = (case v of None \<Rightarrow> [] | Some xs \<Rightarrow> xs)"

text \<open>\<open>task.list?.statuses\<close>.\<close>

definition taskListStatuses :: "TaskDetails \<Rightarrow> ClickUpStatus list option" where
  "taskListStatuses task = (case td_list task of None \<Rightarrow> None | Some l \<Rightarrow> tl_statuses l)"

text \<open>
  The three sources of the available statuses, tried in order: the list embedded in the
  task, the statuses of the task, a fetch of the list (whose failure is swallowed).
\<close>

definition threeTierStatuses ::
  "upstream \<Rightarrow> TaskDetails \<Rightarrow> world \<Rightarrow> ClickUpStatus list \<times> world" where
  "threeTierStatuses up task w =
     (if listOr (taskListStatuses task) \<noteq> [] then (listOr (taskListStatuses task), w)
      else if listOr (td_statuses task) \<noteq> [] then (listOr (td_statuses task), w)
      else (case td_list task of
              None \<Rightarrow> ([], w)
            | Some l \<Rightarrow>
                (case tl_id l of
                   None \<Rightarrow> ([], w)
                 | Some listId \<Rightarrow>
                     (if listId = [] then ([], w)
                      else (case getList up w listId of
                              Inr statuses \<Rightarrow> (listOr statuses, w @ [GetList listId])
                            | Inl f \<Rightarrow> ([], w @ [GetList listId]))))))"

text \<open>The last resort: the current status of the task alone.\<close>

definition lastResort :: "TaskDetails \<Rightarrow> ClickUpStatus list \<Rightarrow> ClickUpStatus list" where
  "lastResort task availableStatuses =
     (if availableStatuses = []
      then (case td_status task of None \<Rightarrow> [] | Some current \<Rightarrow> [current])
      else availableStatuses)"

definition availableStatusesOf ::
  "upstream \<Rightarrow> TaskDetails \<Rightarrow> world \<Rightarrow> ClickUpStatus list \<times> world" where
  "availableStatusesOf up task w =
     (case threeTierStatuses up task w of (ss, w') \<Rightarrow> (lastResort task ss, w'))"

definition findStatus ::
  "platform \<Rightarrow> string \<Rightarrow> ClickUpStatus list \<Rightarrow> ClickUpStatus option" where
  "findStatus pf statusName availableStatuses =
     find (\<lambda>s. toLowerCase pf (status s) = toLowerCase pf statusName) availableStatuses"

definition diagnosticsOf :: "string \<Rightarrow> TaskDetails \<Rightarrow> ClickUpStatus list \<Rightarrow> StatusDiagnostics" where
  "diagnosticsOf statusName task availableStatuses =
     \<lparr>diag_requestedStatus = statusName,
      diag_availableStatuses = map (\<lambda>s. (status s, status_id s)) availableStatuses,
      diag_taskHasStatuses = (td_statuses task \<noteq> None),
      diag_taskHasListStatuses = (taskListStatuses task \<noteq> None),
      diag_statusSource =
        (if taskListStatuses task \<noteq> None then ''task.list.statuses''
         else if td_statuses task \<noteq> None then ''task.statuses''
         else ''fallback/unknown'')\<rparr>"

definition statusNames :: "ClickUpStatus list \<Rightarrow> string" where
  "statusNames availableStatuses = join '', '' (map status availableStatuses)"

definition statusNotFoundMessage ::
  "platform \<Rightarrow> string \<Rightarrow> TaskDetails \<Rightarrow> ClickUpStatus list \<Rightarrow> string" where
  "statusNotFoundMessage pf statusName task availableStatuses =
     ''Status '' @ dquote @ statusName @ dquote @ '' not found. Available statuses: ''
       @ (if statusNames availableStatuses = [] then ''none found''
          else statusNames availableStatuses)
       @ ''. Diagnostics: ''
       @ stringifyDiagnostics pf (diagnosticsOf statusName task availableStatuses)"

definition statusApiError :: "http_failure \<Rightarrow> thrown" where
  "statusApiError f =
     (case f of
        AxiosError r \<Rightarrow>
          Error (''ClickUp API error: '' @ tmpl (map_option (\<lambda>x. show_nat (resp_status x)) r)
                 @ '' ''
                 @ tmpl (js_or (case r of None \<Rightarrow> None | Some x \<Rightarrow> resp_data_message x)
                               (map_option resp_statusText r))
                 @ ''. Error code: ''
                 @ tmpl (case r of None \<Rightarrow> None
                         | Some x \<Rightarrow> js_or (resp_data_ECODE x) (resp_data_err x))
                 @ ''. Details: '' @ tmpl (case r of None \<Rightarrow> None | Some x \<Rightarrow> resp_data_json x))
      | OtherFailure t \<Rightarrow> t)"

definition updateTaskStatus ::
  "platform \<Rightarrow> upstream \<Rightarrow> ClickUpConfig \<Rightarrow> string \<Rightarrow> string option \<Rightarrow> world
     \<Rightarrow> (thrown + unit) \<times> world" where
  "updateTaskStatus pf up config task requested w =
     (let statusName = (case requested of None \<Rightarrow> completedStatusName config | Some n \<Rightarrow> n)
      in case getTask up w task of
           Inl f \<Rightarrow> (Inl (statusApiError f), w @ [GetTask task])
         | Inr details \<Rightarrow>
             (case availableStatusesOf up details (w @ [GetTask task]) of
                (availableStatuses, w1) \<Rightarrow>
                  (case findStatus pf statusName availableStatuses of
                     None \<Rightarrow>
                       (Inl (Error (statusNotFoundMessage pf statusName details availableStatuses)), w1)
                   | Some found \<Rightarrow>
                       (case putTask up w1 task statusName (teamId config) of
                          Inr _ \<Rightarrow> (Inr (), w1 @ [PutTask task statusName (teamId config)])
                        | Inl f \<Rightarrow>
                            (Inl (statusApiError f),
                             w1 @ [PutTask task statusName (teamId config)])))))"

section \<open>SentryMCPServer (mcp/server.ts)\<close>

text \<open>
  The result of a tool call: the text of its one content item and the \<open>isError\<close> flag
  (absent in the source's success results, \<open>False\<close> here).
\<close>

record ToolResult =
  text_of :: string
  isError :: bool

text \<open>
  The argument object of a call, with the properties the tools read. A call may come
  without argument object (\<open>arguments\<close> is optional in a \<open>tools/call\<close> request): the
  tools take a \<open>ToolArgs option\<close>, and reading a property of the absent object throws a
  \<open>TypeError\<close>.
\<close>

record ToolArgs =
  arg_search :: "string option"
  arg_project :: "string option"
  arg_limit :: "int option"
  arg_issueId :: "string option"
  arg_taskId :: "string option"
  arg_comment :: "string option"
  arg_statusName :: "string option"

text \<open>The ClickUp variables of the process environment.\<close>

record Env =
  CLICKUP_API_TOKEN :: "string option"
  CLICKUP_TEAM_ID :: "string option"
  CLICKUP_CUSTOM_FIELDS :: "string option"
  CLICKUP_SELECTED_LIST :: "string option"
  CLICKUP_COMPLETED_STATUS :: "string option"
  CLICKUP_LANGUAGE :: "string option"

text \<open>
  The server. \<open>storeManager\<close> is a reference in the source; here it holds the manager in
  the state it has when the server looks at it.
\<close>

record SentryMCPServer =
  mcp_sentryClient :: SentryConfig
  mcp_clickUpClient :: "ClickUpConfig option"
  storeManager :: "StoreManager option"
  mcp_clickUpConfig :: "ClickUpConfig option"

text \<open>\<open>storeManager?.getClickUpConfig()\<close>.\<close>

definition managerClickUpConfig :: "StoreManager option \<Rightarrow> ClickUpConfig option" where
  "managerClickUpConfig sm = (case sm of None \<Rightarrow> None | Some m \<Rightarrow> clickUpConfig m)"

definition envClickUpConfig :: "Env \<Rightarrow> (string \<times> string) list \<Rightarrow> ClickUpConfig" where
  "envClickUpConfig env cf =
     \<lparr>cu_apiToken = tmpl (CLICKUP_API_TOKEN env), teamId = tmpl (CLICKUP_TEAM_ID env),
      customFields = cf, cfg_selectedListId = CLICKUP_SELECTED_LIST env,
      completedStatusName = tmpl (js_or (CLICKUP_COMPLETED_STATUS env) (Some ''complete'')),
      language = tmpl (js_or (CLICKUP_LANGUAGE env) (Some ''English''))\<rparr>"

definition new_SentryMCPServer ::
  "platform \<Rightarrow> Env \<Rightarrow> SentryConfig \<Rightarrow> StoreManager option \<Rightarrow> thrown + SentryMCPServer" where
  "new_SentryMCPServer pf env config sm =
     (case managerClickUpConfig sm of
        Some c \<Rightarrow>
          Inr \<lparr>mcp_sentryClient = config, mcp_clickUpClient = Some c, storeManager = sm,
               mcp_clickUpConfig = Some c\<rparr>
      | None \<Rightarrow>
          (if truthy (CLICKUP_API_TOKEN env) \<and> truthy (CLICKUP_TEAM_ID env)
           then (case (if truthy (CLICKUP_CUSTOM_FIELDS env)
                       then parseCustomFields pf (tmpl (CLICKUP_CUSTOM_FIELDS env))
                       else Inr []) of
                   Inl msg \<Rightarrow> Inl (Error msg)
                 | Inr cf \<Rightarrow>
                     Inr \<lparr>mcp_sentryClient = config,
                          mcp_clickUpClient = Some (envClickUpConfig env cf),
                          storeManager = sm,
                          mcp_clickUpConfig = Some (envClickUpConfig env cf)\<rparr>)
           else Inr \<lparr>mcp_sentryClient = config, mcp_clickUpClient = None, storeManager = sm,
                     mcp_clickUpConfig = None\<rparr>))"

subsection \<open>searchIssues\<close>

definition matchesSearch :: "platform \<Rightarrow> string \<Rightarrow> SentryIssue \<Rightarrow> bool" where
  "matchesSearch pf searchTerm issue =
     (searchTerm = []
      \<or> str_includes (toLowerCase pf (title issue)) searchTerm
      \<or> str_includes (toLowerCase pf (shortId issue)) searchTerm
      \<or> (case culprit issue of
            None \<Rightarrow> False
          | Some c \<Rightarrow> str_includes (toLowerCase pf c) searchTerm))"

text \<open>The two loops that fill \<open>allIssues\<close>.\<close>

fun collectIssues ::
  "platform \<Rightarrow> string \<Rightarrow> string option \<Rightarrow> IssuesByProject
     \<Rightarrow> (string \<times> SentryIssue) list" where
  "collectIssues pf searchTerm projectFilter [] = []"
| "collectIssues pf searchTerm projectFilter ((project, issues) # rest) =
     (if truthy projectFilter \<and> projectFilter \<noteq> Some project
      then collectIssues pf searchTerm projectFilter rest
      else map (Pair project) (filter (matchesSearch pf searchTerm) issues)
             @ collectIssues pf searchTerm projectFilter rest)"

text \<open>\<open>args.limit || 25\<close>, for a limit that is an integer.\<close>

definition searchLimit :: "int option \<Rightarrow> int" where
  "searchLimit l = (case l of None \<Rightarrow> 25 | Some n \<Rightarrow> if n = 0 then 25 else n)"

text \<open>\<open>xs.slice(0, n)\<close>: a negative \<open>n\<close> counts from the end.\<close>

definition slice0 :: "int \<Rightarrow> 'a list \<Rightarrow> 'a list" where
  "slice0 n xs = (if n < 0 then take (length xs - nat (- n)) xs else take (nat n) xs)"

definition searchTermOf :: "platform \<Rightarrow> ToolArgs \<Rightarrow> string" where
  "searchTermOf pf args = (case arg_search args of None \<Rightarrow> [] | Some s \<Rightarrow> toLowerCase pf s)"

text \<open>\<open>limitedIssues\<close>: the entries the call returns.\<close>

definition limitedIssues ::
  "platform \<Rightarrow> ToolArgs \<Rightarrow> IssuesByProject \<Rightarrow> (string \<times> SentryIssue) list" where
  "limitedIssues pf args m =
     slice0 (searchLimit (arg_limit args))
       (collectIssues pf (searchTermOf pf args) (arg_project args) m)"

definition renderEntry :: "platform \<Rightarrow> string \<times> SentryIssue \<Rightarrow> string" where
  "renderEntry pf e =
     (case e of (project, issue) \<Rightarrow>
        ''**'' @ shortId issue @ ''** ('' @ project @ '')'' @ nl
        @ ''Title: '' @ title issue @ nl
        @ ''Level: '' @ level issue @ nl
        @ ''Events: '' @ count issue @ '' ('' @ show_nat (userCount issue) @ '' users affected)'' @ nl
        @ ''Last seen: '' @ toLocaleString pf (lastSeen issue) @ nl
        @ ''Culprit: '' @ tmpl (js_or (culprit issue) (Some ''N/A'')) @ nl
        @ ''Link: '' @ permalink issue @ nl
        @ ''Issue ID: '' @ issue_id issue @ nl)"

definition noIssuesText :: string where
  "noIssuesText = ''No issues found matching your criteria. All issues may be resolved!''"

definition searchIssues ::
  "platform \<Rightarrow> upstream \<Rightarrow> SentryMCPServer \<Rightarrow> ToolArgs option \<Rightarrow> world
     \<Rightarrow> (thrown + ToolResult) \<times> world" where
  "searchIssues pf up srv arguments w =
     (case arguments of
        None \<Rightarrow> (Inl (Error (cannotReadProperty ''search'')), w)
      | Some args \<Rightarrow>
          (case fetchAllIssues up (mcp_sentryClient srv) w of
             (m, w') \<Rightarrow>
               (let response =
                      join (nl @ ''---'' @ nl @ nl) (map (renderEntry pf) (limitedIssues pf args m))
                in (Inr \<lparr>text_of = (if response = [] then noIssuesText else response),
                         isError = False\<rparr>,
                    w'))))"

subsection \<open>getIssueDetails\<close>

text \<open>The lookup both \<open>getIssueDetails\<close> and \<open>resolveIssue\<close> run over the fetched issues.\<close>

fun findIssue :: "string \<Rightarrow> IssuesByProject \<Rightarrow> (string \<times> SentryIssue) option" where
  "findIssue issueId [] = None"
| "findIssue issueId ((project, issues) # rest) =
     (case find (\<lambda>i. issue_id i = issueId \<or> shortId i = issueId) issues of
        Some issue \<Rightarrow> Some (project, issue)
      | None \<Rightarrow> findIssue issueId rest)"

definition frameLine :: "StackFrame \<Rightarrow> string" where
  "frameLine frame =
     ''  at '' @ tmpl (js_or (function_name frame) (Some ''<anonymous>''))
       @ '' ('' @ tmpl (js_or (js_or (filename frame) (absPath frame)) (Some ''unknown''))
       @ '':'' @ (case lineNo frame of
                   None \<Rightarrow> ''?''
                 | Some n \<Rightarrow> if n = 0 then ''?'' else show_nat n)
       @ '')'' @ nl"

definition exceptionLine :: "ExceptionValue \<Rightarrow> string" where
  "exceptionLine exception = exc_type exception @ '': '' @ exc_value exception @ nl"

text \<open>The inner loop: \<open>for (const frame of frames.slice().reverse()) details += ...\<close>.\<close>

definition appendFrames :: "string \<Rightarrow> StackFrame list \<Rightarrow> string" where
  "appendFrames details frames = foldl (\<lambda>d frame. d @ frameLine frame) details (rev frames)"

definition appendException :: "string \<Rightarrow> ExceptionValue \<Rightarrow> string" where
  "appendException details exception =
     appendFrames (details @ exceptionLine exception) (listOr (stacktrace_frames exception))"

text \<open>The outer loop: \<open>for (const exception of values.reverse())\<close>.\<close>

definition appendExceptions :: "string \<Rightarrow> ExceptionValue list \<Rightarrow> string" where
  "appendExceptions details vals = foldl appendException details (rev vals)"

definition backticks :: string where
  "backticks = [CHR 0x60, CHR 0x60, CHR 0x60]"

definition appendStackTrace :: "string \<Rightarrow> SentryEvent \<Rightarrow> string" where
  "appendStackTrace details ev =
     (case find (\<lambda>entry. entry_type entry = ''exception'') (entries ev) of
        None \<Rightarrow> details
      | Some exceptionEntry \<Rightarrow>
          (case data_values exceptionEntry of
             None \<Rightarrow> details
           | Some vals \<Rightarrow>
               appendExceptions (details @ ''## Stack Trace'' @ nl @ nl @ backticks @ nl) vals
                 @ backticks @ nl @ nl))"

definition breadcrumbLine :: "platform \<Rightarrow> Breadcrumb \<Rightarrow> string" where
  "breadcrumbLine pf breadcrumb =
     ''- ['' @ toLocaleTimeString pf (timestamp breadcrumb) @ ''] ''
       @ tmpl (js_or (category breadcrumb) (Some (bc_type breadcrumb))) @ '': ''
       @ tmpl (js_or (bc_message breadcrumb)
                 (Some (case data_json breadcrumb of None \<Rightarrow> ''{}'' | Some j \<Rightarrow> j)))
       @ nl"

definition appendBreadcrumbs :: "platform \<Rightarrow> string \<Rightarrow> SentryEvent \<Rightarrow> string" where
  "appendBreadcrumbs pf details ev =
     (if breadcrumbs_values ev = [] then details
      else foldl (\<lambda>d b. d @ breadcrumbLine pf b)
             (details @ ''## User Actions (Breadcrumbs)'' @ nl @ nl)
             (drop (length (breadcrumbs_values ev) - 10) (breadcrumbs_values ev))
           @ nl)"

definition relevantTagKeys :: "string list" where
  "relevantTagKeys = [''environment'', ''release'', ''browser'', ''os'', ''level'', ''runtime'', ''url'']"

definition appendTags :: "string \<Rightarrow> SentryEvent \<Rightarrow> string" where
  "appendTags details ev =
     (if tags ev = [] then details
      else foldl (\<lambda>d t. d @ ''- **'' @ tag_key t @ '':** '' @ tag_value t @ nl)
             (details @ ''## Tags'' @ nl @ nl)
             (take 10 (filter (\<lambda>t. tag_key t \<in> set relevantTagKeys) (tags ev))))"

definition detailsHead :: "platform \<Rightarrow> string \<Rightarrow> SentryIssue \<Rightarrow> string" where
  "detailsHead pf foundProject foundIssue =
     ''# '' @ shortId foundIssue @ '': '' @ title foundIssue @ nl @ nl
     @ ''**Project:** '' @ foundProject @ nl
     @ ''**Level:** '' @ level foundIssue @ nl
     @ ''**Status:** '' @ issue_status foundIssue @ nl
     @ ''**Events:** '' @ count foundIssue @ '' ('' @ show_nat (userCount foundIssue)
        @ '' users affected)'' @ nl
     @ ''**First Seen:** '' @ toLocaleString pf (firstSeen foundIssue) @ nl
     @ ''**Last Seen:** '' @ toLocaleString pf (lastSeen foundIssue) @ nl
     @ ''**Link:** '' @ permalink foundIssue @ nl @ nl
     @ (if truthy (culprit foundIssue) then ''**Culprit:** '' @ tmpl (culprit foundIssue) @ nl @ nl
        else [])"

definition appendEvent :: "platform \<Rightarrow> string \<Rightarrow> SentryIssue \<Rightarrow> SentryEvent option \<Rightarrow> string" where
  "appendEvent pf details foundIssue event =
     (case event of
        None \<Rightarrow> details
      | Some ev \<Rightarrow>
          appendTags
            (appendBreadcrumbs pf
               (appendStackTrace
                  (details @ ''## Error Message'' @ nl @ nl
                     @ tmpl (js_or (metadata_value foundIssue) (Some (message ev))) @ nl @ nl)
                  ev)
               ev)
            ev)"

definition detailsFoot :: "SentryIssue \<Rightarrow> string" where
  "detailsFoot foundIssue =
     nl @ ''**To resolve this issue, use:** '' @ [CHR 0x60] @ ''sentry_resolve_issue'' @ [CHR 0x60]
       @ '' with issueId: '' @ [CHR 0x60] @ issue_id foundIssue @ [CHR 0x60] @ nl"

definition detailsText ::
  "platform \<Rightarrow> string \<Rightarrow> SentryIssue \<Rightarrow> SentryEvent option \<Rightarrow> string" where
  "detailsText pf foundProject foundIssue event =
     appendEvent pf (detailsHead pf foundProject foundIssue) foundIssue event
       @ detailsFoot foundIssue"

definition getIssueDetails ::
  "platform \<Rightarrow> upstream \<Rightarrow> SentryMCPServer \<Rightarrow> ToolArgs option \<Rightarrow> world
     \<Rightarrow> (thrown + ToolResult) \<times> world" where
  "getIssueDetails pf up srv arguments w =
     (case arguments of
        None \<Rightarrow> (Inl (Error (cannotReadProperty ''issueId'')), w)
      | Some args \<Rightarrow>
          (if \<not> truthy (arg_issueId args) then (Inl (Error ''issueId is required''), w)
           else (case fetchAllIssues up (mcp_sentryClient srv) w of
                   (m, w1) \<Rightarrow>
                     (case findIssue (tmpl (arg_issueId args)) m of
                        None \<Rightarrow>
                          (Inl (Error (''Issue not found: '' @ tmpl (arg_issueId args))), w1)
                      | Some (foundProject, foundIssue) \<Rightarrow>
                          (case fetchLatestEvent up (issue_id foundIssue) w1 of
                             (event, w2) \<Rightarrow>
                               (Inr \<lparr>text_of = detailsText pf foundProject foundIssue event,
                                     isError = False\<rparr>, w2))))))"

subsection \<open>listProjects, resolveIssue\<close>

definition listProjects ::
  "upstream \<Rightarrow> SentryMCPServer \<Rightarrow> world \<Rightarrow> (thrown + ToolResult) \<times> world" where
  "listProjects up srv w =
     (case fetchAllIssues up (mcp_sentryClient srv) w of
        (m, w') \<Rightarrow>
          (Inr \<lparr>text_of =
                  (if m = [] then ''No projects configured.''
                   else ''Available projects:'' @ nl @ nl
                        @ join nl (map (\<lambda>(project, issues).
                              ''- '' @ project @ '' ('' @ show_nat (length issues)
                                @ '' unresolved issues)'') m)),
                isError = False\<rparr>, w'))"

definition resolvedText :: "SentryIssue \<Rightarrow> string" where
  "resolvedText foundIssue =
     checkMark @ '' Issue '' @ shortId foundIssue
       @ '' has been marked as resolved in next release.'' @ nl @ nl
       @ ''The issue will no longer appear in the active issues list.''"

definition resolveIssue ::
  "upstream \<Rightarrow> SentryMCPServer \<Rightarrow> ToolArgs option \<Rightarrow> world
     \<Rightarrow> (thrown + ToolResult) \<times> world" where
  "resolveIssue up srv arguments w =
     (case arguments of
        None \<Rightarrow> (Inl (Error (cannotReadProperty ''issueId'')), w)
      | Some args \<Rightarrow>
          (if \<not> truthy (arg_issueId args) then (Inl (Error ''issueId is required''), w)
           else (case fetchAllIssues up (mcp_sentryClient srv) w of
                   (m, w1) \<Rightarrow>
                     (case findIssue (tmpl (arg_issueId args)) m of
                        None \<Rightarrow>
                          (Inl (Error (''Issue not found: '' @ tmpl (arg_issueId args))), w1)
                      | Some (foundProject, foundIssue) \<Rightarrow>
                          (case client_resolveIssue up (issue_id foundIssue) w1 of
                             (Inr _, w2) \<Rightarrow>
                               (Inr \<lparr>text_of = resolvedText foundIssue, isError = False\<rparr>, w2)
                           | (Inl e, w2) \<Rightarrow> (Inl e, w2))))))"

subsection \<open>addClickUpComment, setClickUpStatus\<close>

text \<open>
  The block both operations run after reading their arguments: a server without ClickUp
  client takes the configuration of its store manager, when it has a manager and the
  manager has one.
\<close>

definition clientFromStoreManager :: "SentryMCPServer \<Rightarrow> SentryMCPServer" where
  "clientFromStoreManager srv =
     (case storeManager srv of
        None \<Rightarrow> srv
      | Some sm \<Rightarrow>
          (case (mcp_clickUpClient srv, clickUpConfig sm) of
             (None, Some c) \<Rightarrow> srv\<lparr>mcp_clickUpClient := Some c\<rparr>
           | _ \<Rightarrow> srv))"

text \<open>
  Both operations read \<open>args.taskId\<close> in their first statement: without argument
  object they throw there and leave the server as it was.
\<close>

definition addClickUpComment ::
  "upstream \<Rightarrow> SentryMCPServer \<Rightarrow> ToolArgs option \<Rightarrow> world
     \<Rightarrow> (thrown + ToolResult) \<times> SentryMCPServer \<times> world" where
  "addClickUpComment up srv arguments w =
     (case arguments of
        None \<Rightarrow> (Inl (Error (cannotReadProperty ''taskId'')), srv, w)
      | Some args \<Rightarrow>
          (let srv' = clientFromStoreManager srv
           in if \<not> truthy (arg_taskId args) \<or> \<not> truthy (arg_comment args)
              then (Inl (Error ''taskId and comment are required''), srv', w)
              else (case mcp_clickUpClient srv' of
                      None \<Rightarrow> (Inl (Error ''ClickUp is not configured''), srv', w)
                    | Some client \<Rightarrow>
                        (case addComment up (tmpl (arg_taskId args)) (tmpl (arg_comment args)) w of
                           (Inr _, w') \<Rightarrow>
                             (Inr \<lparr>text_of = checkMark @ '' Comment added to ClickUp task ''
                                               @ tmpl (arg_taskId args),
                                   isError = False\<rparr>, srv', w')
                         | (Inl e, w') \<Rightarrow> (Inl e, srv', w')))))"

definition setClickUpStatus ::
  "platform \<Rightarrow> upstream \<Rightarrow> SentryMCPServer \<Rightarrow> ToolArgs option \<Rightarrow> world
     \<Rightarrow> (thrown + ToolResult) \<times> SentryMCPServer \<times> world" where
  "setClickUpStatus pf up srv arguments w =
     (case arguments of
        None \<Rightarrow> (Inl (Error (cannotReadProperty ''taskId'')), srv, w)
      | Some args \<Rightarrow>
          (let srv' = clientFromStoreManager srv
           in if \<not> truthy (arg_taskId args) then (Inl (Error ''taskId is required''), srv', w)
              else (case mcp_clickUpClient srv' of
                      None \<Rightarrow> (Inl (Error ''ClickUp is not configured''), srv', w)
                    | Some client \<Rightarrow>
                        (case updateTaskStatus pf up client (tmpl (arg_taskId args))
                                (arg_statusName args) w of
                           (Inr _, w') \<Rightarrow>
                             (Inr \<lparr>text_of = checkMark @ '' ClickUp task '' @ tmpl (arg_taskId args)
                                               @ '' status set to '' @ dquote
                                               @ tmpl (js_or (arg_statusName args) (Some ''complete''))
                                               @ dquote,
                                   isError = False\<rparr>, srv', w')
                         | (Inl e, w') \<Rightarrow> (Inl e, srv', w')))))"

subsection \<open>The handler of tool calls\<close>

definition dispatch ::
  "platform \<Rightarrow> upstream \<Rightarrow> SentryMCPServer \<Rightarrow> string \<Rightarrow> ToolArgs option \<Rightarrow> world
     \<Rightarrow> (thrown + ToolResult) \<times> SentryMCPServer \<times> world" where
  "dispatch pf up srv name args w =
     (if name = ''sentry_search_issues''
      then (case searchIssues pf up srv args w of (r, w') \<Rightarrow> (r, srv, w'))
      else if name = ''sentry_get_issue_details''
      then (case getIssueDetails pf up srv args w of (r, w') \<Rightarrow> (r, srv, w'))
      else if name = ''sentry_list_projects''
      then (case listProjects up srv w of (r, w') \<Rightarrow> (r, srv, w'))
      else if name = ''sentry_resolve_issue''
      then (case resolveIssue up srv args w of (r, w') \<Rightarrow> (r, srv, w'))
      else if name = ''clickup_add_comment'' then addClickUpComment up srv args w
      else if name = ''clickup_set_status'' then setClickUpStatus pf up srv args w
      else (Inl (Error (''Unknown tool: '' @ name)), srv, w))"

text \<open>The \<open>try\<close>/\<open>catch\<close> of the handler: whatever is thrown becomes an error result.\<close>

definition callTool ::
  "platform \<Rightarrow> upstream \<Rightarrow> SentryMCPServer \<Rightarrow> string \<Rightarrow> ToolArgs option \<Rightarrow> world
     \<Rightarrow> ToolResult \<times> SentryMCPServer \<times> world" where
  "callTool pf up srv name args w =
     (case dispatch pf up srv name args w of
        (Inr result, srv', w') \<Rightarrow> (result, srv', w')
      | (Inl e, srv', w') \<Rightarrow>
          (\<lparr>text_of = ''Error: '' @ errorMessage e, isError = True\<rparr>, srv', w'))"

section \<open>Notions used in the statements\<close>

text \<open>No comment thread the upstream ever returns for issue \<open>k\<close> has a task URL.\<close>

definition noUrlFor :: "upstream \<Rightarrow> string \<Rightarrow> bool" where
  "noUrlFor up k = (\<forall>w. fst (parseClickUpUrlFromComments up k w) = None)"

text \<open>The state of the event loop before any call.\<close>

definition start :: "IssueStore \<Rightarrow> world \<Rightarrow> loop_state" where
  "start s w = \<lparr>store = s, callers = [], log = w\<rparr>"

text \<open>The lines of one exception: its own line, then its frames, innermost first.\<close>

definition exceptionBlock :: "ExceptionValue \<Rightarrow> string" where
  "exceptionBlock exception =
     exceptionLine exception @ concat (map frameLine (rev (listOr (stacktrace_frames exception))))"

text \<open>
  A request of the bulk fetch: the issue query of an organisation for the unresolved
  issues of one project, over 14 days, sorted by date, at most 25.
\<close>

definition isBulkQuery :: "request \<Rightarrow> bool" where
  "isBulkQuery r =
     (case r of
        GetOrgIssues org q \<Rightarrow>
          statsPeriod q = ''14d'' \<and> limit q = 25 \<and> sort_key q = ''date''
          \<and> take 8 (query q) = ''project:''
          \<and> drop (length (query q) - 14) (query q) = '' is:unresolved''
      | _ \<Rightarrow> False)"

text \<open>No fetched issue has \<open>issueId\<close> as its id or as its short id.\<close>

definition notFetched :: "string \<Rightarrow> IssuesByProject \<Rightarrow> bool" where
  "notFetched issueId m =
     (\<forall>(project, issues) \<in> set m. \<forall>i \<in> set issues. issue_id i \<noteq> issueId \<and> shortId i \<noteq> issueId)"


section \<open>Example values\<close>

text \<open>Values on which the theorems below are run.\<close>

definition exampleConfig :: SentryConfig where
  "exampleConfig =
     \<lparr>sentryUrl = ''https://sentry.io'', apiToken = ''token'',
      projectSlugs = [''acme/web'', ''acme/api'']\<rparr>"

definition webConfig :: SentryConfig where
  "webConfig = \<lparr>sentryUrl = ''https://sentry.io'', apiToken = ''token'', projectSlugs = [''acme/web'']\<rparr>"

definition exampleIssue :: SentryIssue where
  "exampleIssue =
     \<lparr>issue_id = ''4001'', title = ''TypeError: x is undefined'', culprit = Some ''app/main.js'',
      permalink = ''https://sentry.io/acme/web/issues/4001/'', shortId = ''WEB-1'',
      level = ''error'', issue_status = ''unresolved'', count = ''12'', userCount = 3,
      firstSeen = ''2025-01-01T00:00:00Z'', lastSeen = ''2025-01-02T00:00:00Z'',
      metadata_value = None\<rparr>"

text \<open>An upstream where every request fails without a response.\<close>

definition failingUpstream :: upstream where
  "failingUpstream =
     \<lparr>orgIssues = (\<lambda>w org q. Inl (AxiosError None)),
      latestEvent = (\<lambda>w i. Inl (AxiosError None)),
      putIssue = (\<lambda>w i s. Inl (AxiosError None)),
      postIssueComment = (\<lambda>w i t. Inl (AxiosError None)),
      issueComments = (\<lambda>w i. Inl (AxiosError None)),
      teamLists = (\<lambda>w t. Inl (AxiosError None)),
      postTask = (\<lambda>w l n d ts. Inl (AxiosError None)),
      postTaskComment = (\<lambda>w t c. Inl (AxiosError None)),
      getTask = (\<lambda>w t. Inl (AxiosError None)),
      getList = (\<lambda>w l. Inl (AxiosError None)),
      putTask = (\<lambda>w t s team. Inl (AxiosError None))\<rparr>"

text \<open>
  An upstream where organisation \<open>acme\<close> has the example issue in project \<open>api\<close>, the
  query for any other project fails, and the example issue has one comment with a task
  URL.
\<close>

definition exampleComment :: SentryComment where
  "exampleComment =
     \<lparr>data_text = Some ''See https://app.clickup.com/t/abc123 for tracking'', comment_text = None\<rparr>"

definition exampleUpstream :: upstream where
  "exampleUpstream =
     failingUpstream
       \<lparr>orgIssues := (\<lambda>w org q. if query q = ''project:api is:unresolved'' then Inr [exampleIssue]
                                 else Inl (AxiosError None)),
        issueComments := (\<lambda>w i. if i = ''4001'' then Inr [exampleComment] else Inr [])\<rparr>"

text \<open>A platform whose lower-casing folds the ASCII letters and whose dates print as given.\<close>

definition examplePlatform :: platform where
  "examplePlatform =
     \<lparr>toLowerCase = asciiLowerCase, toLocaleString = (\<lambda>s. s), toLocaleTimeString = (\<lambda>s. s),
      stringifyDiagnostics = (\<lambda>d. ''{}''), parseCustomFields = (\<lambda>s. Inr [])\<rparr>"

definition exampleClickUpConfig :: ClickUpConfig where
  "exampleClickUpConfig =
     \<lparr>cu_apiToken = ''pk_1'', teamId = ''900'', customFields = [], cfg_selectedListId = Some ''L1'',
      completedStatusName = ''complete'', language = ''English''\<rparr>"

definition exampleTask :: ClickUpTask where
  "exampleTask = \<lparr>task_id = ''t1'', task_url = ''https://app.clickup.com/t/t1''\<rparr>"

text \<open>An upstream that creates the example task and fails every other request.\<close>

definition taskUpstream :: upstream where
  "taskUpstream = failingUpstream\<lparr>postTask := (\<lambda>w l n d ts. Inr exampleTask)\<rparr>"

text \<open>
  An upstream that creates the example task, has the example issue in project \<open>api\<close>, and
  returns for it one comment, which has no task URL.
\<close>

definition plainComment :: SentryComment where
  "plainComment = \<lparr>data_text = Some ''no link here'', comment_text = None\<rparr>"

definition scanUpstream :: upstream where
  "scanUpstream =
     taskUpstream
       \<lparr>orgIssues := (\<lambda>w org q. if query q = ''project:api is:unresolved'' then Inr [exampleIssue]
                                 else Inl (AxiosError None)),
        issueComments := (\<lambda>w i. Inr [plainComment])\<rparr>"

text \<open>A manager with both clients, the example issue fetched and the list \<open>L1\<close> selected.\<close>

definition boardManager :: StoreManager where
  "boardManager =
     new_StoreManager
       \<lparr>sentryClient := Some exampleConfig, clickUpClient := Some exampleClickUpConfig,
        sentryConfig := Some exampleConfig, clickUpConfig := Some exampleClickUpConfig,
        sentryStore := \<lparr>issuesByProject = [(''acme/web'', []), (''acme/api'', [exampleIssue])],
                        isLoading = False, error = None\<rparr>,
        clickUpStore := \<lparr>lists = [], selectedListId = Some ''L1'', isEnabled = True,
                         cu_isLoading = False, cu_error = None, issueTaskMap = []\<rparr>\<rparr>"


text \<open>An issue store with a client, idle and empty.\<close>

definition idleStore :: IssueStore where
  "idleStore =
     \<lparr>is_issuesByProject = [], is_sentryClient = Some webConfig, isRefreshing = False,
      cache = None, is_fired = []\<rparr>"

definition outerFrame :: StackFrame where
  "outerFrame = \<lparr>filename = Some ''a.js'', absPath = None, function_name = Some ''outer'', lineNo = Some 1\<rparr>"

definition middleFrame :: StackFrame where
  "middleFrame = \<lparr>filename = Some ''b.js'', absPath = None, function_name = Some ''middle'', lineNo = Some 2\<rparr>"

definition innerFrame :: StackFrame where
  "innerFrame = \<lparr>filename = Some ''c.js'', absPath = None, function_name = Some ''inner'', lineNo = Some 3\<rparr>"

definition exampleException :: ExceptionValue where
  "exampleException =
     \<lparr>exc_type = ''TypeError'', exc_value = ''x is undefined'',
      stacktrace_frames = Some [outerFrame, middleFrame, innerFrame]\<rparr>"

definition exampleEntry :: EventEntry where
  "exampleEntry = \<lparr>entry_type = ''exception'', data_values = Some [exampleException]\<rparr>"

definition exampleEvent :: SentryEvent where
  "exampleEvent =
     \<lparr>message = ''x is undefined'', tags = [], entries = [exampleEntry], breadcrumbs_values = []\<rparr>"

text \<open>The example upstream, with the example event as latest event of every issue.\<close>

definition eventUpstream :: upstream where
  "eventUpstream = exampleUpstream\<lparr>latestEvent := (\<lambda>w i. Inr exampleEvent)\<rparr>"

text \<open>A server without ClickUp client and without store manager; empty arguments.\<close>

definition exampleServer :: SentryMCPServer where
  "exampleServer =
     \<lparr>mcp_sentryClient = exampleConfig, mcp_clickUpClient = None, storeManager = None,
      mcp_clickUpConfig = None\<rparr>"

definition noArgs :: ToolArgs where
  "noArgs =
     \<lparr>arg_search = None, arg_project = None, arg_limit = None, arg_issueId = None,
      arg_taskId = None, arg_comment = None, arg_statusName = None\<rparr>"






text \<open>An environment without ClickUp variables.\<close>

definition emptyEnv :: Env where
  "emptyEnv =
     \<lparr>CLICKUP_API_TOKEN = None, CLICKUP_TEAM_ID = None, CLICKUP_CUSTOM_FIELDS = None,
      CLICKUP_SELECTED_LIST = None, CLICKUP_COMPLETED_STATUS = None, CLICKUP_LANGUAGE = None\<rparr>"

section \<open>Facts about the JavaScript \<open>Map\<close>\<close>

lemma map_set_keys: "fst ` set (map_set k v m) = insert k (fst ` set m)"
proof (induction m)
  case Nil
  show ?case by simp
next
  case (Cons p m)
  obtain a b where p: "p = (a, b)" by (cases p)
  show ?case
  proof (cases "a = k")
    case True
    with p show ?thesis by simp
  next
    case False
    with p Cons.IH show ?thesis by (simp add: insert_commute)
  qed
qed

lemma map_set_distinct: "distinct (map fst m) \<Longrightarrow> distinct (map fst (map_set k v m))"
  by (induction m) (auto simp: map_set_keys)

lemma map_of_map_set: "map_of (map_set k v m) = (map_of m)(k \<mapsto> v)"
  by (induction m) auto

lemma map_get_map_set: "map_get (map_set k v m) k' = (if k' = k then Some v else map_get m k')"
  by (simp add: map_get_def map_of_map_set)

section \<open>Facts about the store manager\<close>

lemma fire_stores [simp]:
  "clickUpStore (fire sm) = clickUpStore sm" "sentryStore (fire sm) = sentryStore sm"
  "sentryClient (fire sm) = sentryClient sm" "clickUpClient (fire sm) = clickUpClient sm"
  "clickUpConfig (fire sm) = clickUpConfig sm"
  by (simp_all add: fire_def)


lemma refreshSentry_client:
  assumes "sentryClient sm = Some client"
  shows "refreshSentry up sm w =
     (fire (sm\<lparr>sentryStore := fst (sentryStore_refresh up (Some client) (sentryStore sm) w),
               clickUpStore := fst (correlateProjects up (fst (fetchAllIssues up client w)) (clickUpStore sm)
                                      (snd (fetchAllIssues up client w)))\<rparr>),
      snd (correlateProjects up (fst (fetchAllIssues up client w)) (clickUpStore sm)
             (snd (fetchAllIssues up client w))))"
  using assms
  by (simp add: refreshSentry_def sentryStore_refresh_def Let_def split: prod.splits)


lemma refreshClickUp_sentryStore [simp]: "sentryStore (fst (refreshClickUp up sm w)) = sentryStore sm"
  by (auto simp: refreshClickUp_def split: option.splits prod.splits)

lemma refreshSentry_issues:
  "sentryClient sm = Some client \<Longrightarrow>
     issuesByProject (sentryStore (fst (refreshSentry up sm w))) = fst (fetchAllIssues up client w)"
  by (simp add: refreshSentry_client sentryStore_refresh_def Let_def split: prod.splits)

lemma initialize_issues:
  "issuesByProject (sentryStore (fst (initialize up config boardConfig sm w)))
     = fst (fetchAllIssues up config w)"
proof -
  define sm0 where "sm0 = sm\<lparr>sentryConfig := Some config, clickUpConfig := boardConfig,
                    sentryClient := Some config,
                    clickUpClient := (case boardConfig of None \<Rightarrow> clickUpClient sm | Some c \<Rightarrow> Some c)\<rparr>"
  have c: "sentryClient sm0 = Some config" by (simp add: sm0_def)
  obtain sm1 w1 where a: "refreshSentry up sm0 w = (sm1, w1)" by (cases "refreshSentry up sm0 w")
  obtain sm2 w2 where b: "refreshClickUp up sm1 w1 = (sm2, w2)" by (cases "refreshClickUp up sm1 w1")
  have "sentryStore sm2 = sentryStore sm1" using refreshClickUp_sentryStore[of up sm1 w1] b by simp
  moreover have "issuesByProject (sentryStore sm1) = fst (fetchAllIssues up config w)"
    using refreshSentry_issues[OF c, of up w] a by simp
  moreover have "fst (initialize up config boardConfig sm w) = fire sm2"
    using a b by (simp add: initialize_def Let_def sm0_def)
  ultimately show ?thesis by simp
qed

section \<open>fetchAllIssues: one entry for every configured project\<close>

lemma loop_step:
  "fetchAllIssues_loop up (slug # rest) m w =
     fetchAllIssues_loop up rest
       (map_set slug (case fst (fetchProjectIssues up slug w) of Inl e \<Rightarrow> [] | Inr issues \<Rightarrow> issues) m)
       (snd (fetchProjectIssues up slug w))"
  by (cases "fetchProjectIssues up slug w") (auto split: sum.splits)

lemma loop_keys:
  "fst ` set (fst (fetchAllIssues_loop up slugs m w)) = fst ` set m \<union> set slugs"
proof (induction slugs arbitrary: m w)
  case Nil
  show ?case by simp
next
  case (Cons slug rest)
  show ?case unfolding loop_step Cons.IH by (simp add: map_set_keys)
qed

lemma loop_distinct:
  "distinct (map fst m) \<Longrightarrow> distinct (map fst (fst (fetchAllIssues_loop up slugs m w)))"
proof (induction slugs arbitrary: m w)
  case Nil
  then show ?case by simp
next
  case (Cons slug rest)
  show ?case unfolding loop_step by (rule Cons.IH) (simp add: map_set_distinct Cons.prems)
qed

lemma loop_world: "snd (fetchAllIssues_loop up slugs m w) = snd (fetchAllIssues_loop up slugs m' w)"
proof (induction slugs arbitrary: m m' w)
  case Nil
  show ?case by simp
next
  case (Cons slug rest)
  show ?case unfolding loop_step by (rule Cons.IH)
qed

lemma loop_append:
  "fetchAllIssues_loop up (xs @ ys) m w =
     fetchAllIssues_loop up ys (fst (fetchAllIssues_loop up xs m w)) (snd (fetchAllIssues_loop up xs m w))"
proof (induction xs arbitrary: m w)
  case Nil
  show ?case by simp
next
  case (Cons slug rest)
  show ?case unfolding append_Cons loop_step Cons.IH ..
qed

lemma loop_other:
  "k \<notin> set slugs \<Longrightarrow> map_get (fst (fetchAllIssues_loop up slugs m w)) k = map_get m k"
proof (induction slugs arbitrary: m w)
  case Nil
  show ?case by simp
next
  case (Cons slug rest)
  then have "k \<noteq> slug" "k \<notin> set rest" by auto
  then show ?case unfolding loop_step by (simp add: Cons.IH map_get_map_set)
qed

lemma loop_last_fetch:
  assumes "slugs = pre @ slug # rest" "slug \<notin> set rest"
  shows "map_get (fst (fetchAllIssues_loop up slugs m w)) slug =
           Some (case fst (fetchProjectIssues up slug (snd (fetchAllIssues_loop up pre m w))) of
                   Inl e \<Rightarrow> [] | Inr issues \<Rightarrow> issues)"
  unfolding assms(1) loop_append loop_step
  by (simp add: loop_other[OF assms(2)] map_get_map_set)

text \<open>
  Claim C2. After \<open>fetchAllIssues\<close>, and so after a refresh of the issue store and
  after \<open>initialize\<close>, the keys of the mapping are exactly the configured project slugs,
  each once. The entry of a slug is what the last fetch for that slug returned, and the
  empty list when that fetch failed: a failure neither removes the entry nor stops the
  fetches of the other projects.
\<close>

theorem fetchAllIssues_one_entry_per_group:
  "set (map_keys (fst (fetchAllIssues up config w))) = set (projectSlugs config)
   \<and> distinct (map_keys (fst (fetchAllIssues up config w)))
   \<and> (\<forall>pre slug rest. projectSlugs config = pre @ slug # rest \<and> slug \<notin> set rest \<longrightarrow>
         map_get (fst (fetchAllIssues up config w)) slug =
           Some (case fst (fetchProjectIssues up slug (snd (fetchAllIssues up (config\<lparr>projectSlugs := pre\<rparr>) w))) of
                   Inl e \<Rightarrow> [] | Inr issues \<Rightarrow> issues))
   \<and> issuesByProject (fst (sentryStore_refresh up (Some config) st w)) = fst (fetchAllIssues up config w)
   \<and> issuesByProject (sentryStore (fst (initialize up config boardConfig sm w)))
       = fst (fetchAllIssues up config w)"
proof (intro conjI allI impI)
  show "issuesByProject (sentryStore (fst (initialize up config boardConfig sm w)))
       = fst (fetchAllIssues up config w)"
    by (rule initialize_issues)
  show "set (map_keys (fst (fetchAllIssues up config w))) = set (projectSlugs config)"
    by (simp add: fetchAllIssues_def map_keys_def loop_keys)
  show "distinct (map_keys (fst (fetchAllIssues up config w)))"
    by (simp add: fetchAllIssues_def map_keys_def loop_distinct)
  show "issuesByProject (fst (sentryStore_refresh up (Some config) st w)) = fst (fetchAllIssues up config w)"
    by (simp add: sentryStore_refresh_def Let_def split: prod.splits)
next
  fix pre slug rest
  assume "projectSlugs config = pre @ slug # rest \<and> slug \<notin> set rest"
  then show "map_get (fst (fetchAllIssues up config w)) slug =
           Some (case fst (fetchProjectIssues up slug (snd (fetchAllIssues up (config\<lparr>projectSlugs := pre\<rparr>) w))) of
                   Inl e \<Rightarrow> [] | Inr issues \<Rightarrow> issues)"
    using loop_last_fetch[of "projectSlugs config" pre slug rest up "[]" w]
    by (simp add: fetchAllIssues_def)
qed

theorem fetchAllIssues_one_entry_per_group_witness:
  "projectSlugs exampleConfig = [] @ ''acme/web'' # [''acme/api'']
   \<and> ''acme/web'' \<notin> set [''acme/api'']
   \<and> isl (fst (fetchProjectIssues exampleUpstream ''acme/web'' []))
   \<and> map_get (fst (fetchAllIssues exampleUpstream exampleConfig [])) ''acme/web'' = Some []
   \<and> set (map_keys (fst (fetchAllIssues exampleUpstream exampleConfig []))) = {''acme/web'', ''acme/api''}"
proof -
  have h: "projectSlugs exampleConfig = [] @ ''acme/web'' # [''acme/api'']
           \<and> ''acme/web'' \<notin> set [''acme/api'']"
    by (simp add: exampleConfig_def)
  have f: "fst (fetchProjectIssues exampleUpstream ''acme/web''
             (snd (fetchAllIssues exampleUpstream (exampleConfig\<lparr>projectSlugs := []\<rparr>) [])))
           = Inl (Error ''Sentry API error: undefined undefined'')"
    by code_simp
  have g: "fst (fetchProjectIssues exampleUpstream ''acme/web'' [])
           = Inl (Error ''Sentry API error: undefined undefined'')"
    by code_simp
  from fetchAllIssues_one_entry_per_group[of exampleUpstream exampleConfig "[]"] h
  have "map_get (fst (fetchAllIssues exampleUpstream exampleConfig [])) ''acme/web'' =
          Some (case fst (fetchProjectIssues exampleUpstream ''acme/web''
                  (snd (fetchAllIssues exampleUpstream (exampleConfig\<lparr>projectSlugs := []\<rparr>) []))) of
                  Inl e \<Rightarrow> [] | Inr issues \<Rightarrow> issues)"
    by blast
  then have m: "map_get (fst (fetchAllIssues exampleUpstream exampleConfig [])) ''acme/web'' = Some []"
    unfolding f by simp
  from fetchAllIssues_one_entry_per_group[of exampleUpstream exampleConfig "[]"]
  have "set (map_keys (fst (fetchAllIssues exampleUpstream exampleConfig []))) = set (projectSlugs exampleConfig)"
    by blast
  then have k: "set (map_keys (fst (fetchAllIssues exampleUpstream exampleConfig []))) = {''acme/web'', ''acme/api''}"
    by (simp add: exampleConfig_def insert_commute)
  from h g m k show ?thesis by simp
qed

section \<open>The URL pattern finds the first URL\<close>

lemma isClickUpUrl_split:
  "isClickUpUrl u \<longleftrightarrow> (\<exists>t. u = urlPrefix @ t \<and> t \<noteq> [] \<and> list_all isTailChar t)"
proof
  assume h: "isClickUpUrl u"
  then have "u = urlPrefix @ drop (length urlPrefix) u"
    unfolding isClickUpUrl_def by (metis append_take_drop_id)
  moreover from h have "drop (length urlPrefix) u \<noteq> []" "list_all isTailChar (drop (length urlPrefix) u)"
    unfolding isClickUpUrl_def by auto
  ultimately show "\<exists>t. u = urlPrefix @ t \<and> t \<noteq> [] \<and> list_all isTailChar t" by blast
next
  assume "\<exists>t. u = urlPrefix @ t \<and> t \<noteq> [] \<and> list_all isTailChar t"
  then show "isClickUpUrl u" unfolding isClickUpUrl_def by auto
qed

lemma matchHere_Some:
  assumes "matchHere s = Some u"
  shows "\<exists>suf. s = u @ suf \<and> isClickUpUrl u \<and> (suf = [] \<or> \<not> isTailChar (hd suf))"
proof -
  let ?r = "drop (length urlPrefix) s"
  let ?t = "takeWhile isTailChar ?r"
  from assms have p: "take (length urlPrefix) s = urlPrefix" and t: "?t \<noteq> []" and u: "u = urlPrefix @ ?t"
    unfolding matchHere_def by (auto simp: Let_def split: if_splits)
  have s: "s = urlPrefix @ ?t @ dropWhile isTailChar ?r"
    by (metis p append_take_drop_id takeWhile_dropWhile_id)
  have "list_all isTailChar ?t" by (simp add: list_all_iff) (meson set_takeWhileD)
  with t u have "isClickUpUrl u" unfolding isClickUpUrl_split by blast
  moreover have "dropWhile isTailChar ?r = [] \<or> \<not> isTailChar (hd (dropWhile isTailChar ?r))"
    using hd_dropWhile by blast
  ultimately have "s = u @ dropWhile isTailChar ?r \<and> isClickUpUrl u
      \<and> (dropWhile isTailChar ?r = [] \<or> \<not> isTailChar (hd (dropWhile isTailChar ?r)))"
    using s u by simp
  then show ?thesis by blast
qed

lemma matchHere_shape:
  assumes "isClickUpUrl u"
  shows "matchHere (u @ suf) \<noteq> None"
proof -
  from assms obtain t where u: "u = urlPrefix @ t" and t: "t \<noteq> []" "list_all isTailChar t"
    unfolding isClickUpUrl_split by blast
  have "takeWhile isTailChar (t @ suf) = t @ takeWhile isTailChar suf"
    using t(2) by (simp add: list_all_iff takeWhile_append2)
  with t(1) show ?thesis unfolding matchHere_def u by (simp add: Let_def)
qed

lemma clickUpUrlMatch_None:
  "clickUpUrlMatch s = None \<longleftrightarrow> \<not> containsUrl s"
proof (induction s)
  case Nil
  show ?case unfolding containsUrl_def isClickUpUrl_def by simp
next
  case (Cons c cs)
  show ?case
  proof (cases "matchHere (c # cs)")
    case (Some u)
    then have "containsUrl (c # cs)" unfolding containsUrl_def
      using matchHere_Some[OF Some] by (metis append_Nil)
    with Some show ?thesis by simp
  next
    case None
    have "containsUrl (c # cs) \<longleftrightarrow> containsUrl cs"
    proof
      assume "containsUrl (c # cs)"
      then obtain pre u suf where e: "c # cs = pre @ u @ suf" and u: "isClickUpUrl u"
        unfolding containsUrl_def by blast
      have "pre \<noteq> []" using None matchHere_shape[OF u, of suf] e by auto
      then obtain pre' where "pre = c # pre'" using e by (cases pre) auto
      with e u show "containsUrl cs" unfolding containsUrl_def by auto
    next
      assume "containsUrl cs"
      then obtain pre u suf where "cs = pre @ u @ suf" "isClickUpUrl u"
        unfolding containsUrl_def by blast
      then have "c # cs = (c # pre) @ u @ suf \<and> isClickUpUrl u" by simp
      then show "containsUrl (c # cs)" unfolding containsUrl_def by blast
    qed
    with None Cons show ?thesis by simp
  qed
qed

lemma clickUpUrlMatch_Some:
  "clickUpUrlMatch s = Some u \<Longrightarrow> firstUrlOf s u"
proof (induction s)
  case Nil
  then show ?case by simp
next
  case (Cons c cs)
  show ?case
  proof (cases "matchHere (c # cs)")
    case (Some v)
    with Cons.prems have "v = u" by simp
    with matchHere_Some[OF Some] obtain suf where
      "c # cs = [] @ u @ suf" "isClickUpUrl u" "suf = [] \<or> \<not> isTailChar (hd suf)" by auto
    then show ?thesis unfolding firstUrlOf_def by (metis list.size(3) le0)
  next
    case None
    with Cons.prems have "clickUpUrlMatch cs = Some u" by simp
    from Cons.IH[OF this] obtain pre suf where
      e: "cs = pre @ u @ suf" and u: "isClickUpUrl u" and g: "suf = [] \<or> \<not> isTailChar (hd suf)"
      and l: "\<forall>pre' u' suf'. cs = pre' @ u' @ suf' \<and> isClickUpUrl u' \<longrightarrow> length pre \<le> length pre'"
      unfolding firstUrlOf_def by blast
    have "\<forall>pre' u' suf'. c # cs = pre' @ u' @ suf' \<and> isClickUpUrl u' \<longrightarrow> length (c # pre) \<le> length pre'"
    proof (intro allI impI)
      fix pre' u' suf'
      assume a: "c # cs = pre' @ u' @ suf' \<and> isClickUpUrl u'"
      then have "pre' \<noteq> []" using None matchHere_shape[of u' suf'] by auto
      then obtain p where p: "pre' = c # p" using a by (cases pre') auto
      with a have "cs = p @ u' @ suf' \<and> isClickUpUrl u'" by simp
      with l have "length pre \<le> length p" by blast
      with p show "length (c # pre) \<le> length pre'" by simp
    qed
    moreover have "c # cs = (c # pre) @ u @ suf" using e by simp
    ultimately show ?thesis unfolding firstUrlOf_def using u g by blast
  qed
qed

lemma takeWhile_run:
  "list_all P t \<Longrightarrow> suf = [] \<or> \<not> P (hd suf) \<Longrightarrow> takeWhile P (t @ suf) = t"
  by (induction t) (auto simp: takeWhile_eq_Nil_iff)

lemma firstUrlOf_unique:
  assumes "firstUrlOf s u" "firstUrlOf s v"
  shows "u = v"
proof -
  from assms(1) obtain pre suf where
    e: "s = pre @ u @ suf" and u: "isClickUpUrl u" and g: "suf = [] \<or> \<not> isTailChar (hd suf)"
    and l: "\<forall>pre' u' suf'. s = pre' @ u' @ suf' \<and> isClickUpUrl u' \<longrightarrow> length pre \<le> length pre'"
    unfolding firstUrlOf_def by blast
  from assms(2) obtain pre2 suf2 where
    e2: "s = pre2 @ v @ suf2" and v: "isClickUpUrl v" and g2: "suf2 = [] \<or> \<not> isTailChar (hd suf2)"
    and l2: "\<forall>pre' u' suf'. s = pre' @ u' @ suf' \<and> isClickUpUrl u' \<longrightarrow> length pre2 \<le> length pre'"
    unfolding firstUrlOf_def by blast
  have "length pre \<le> length pre2" using l e2 v by blast
  moreover have "length pre2 \<le> length pre" using l2 e u by blast
  ultimately have "length pre = length pre2" by simp
  with e e2 have q: "u @ suf = v @ suf2" by (metis append_eq_append_conv)
  from u obtain t where t: "u = urlPrefix @ t" "list_all isTailChar t" unfolding isClickUpUrl_split by blast
  from v obtain t2 where t2: "v = urlPrefix @ t2" "list_all isTailChar t2" unfolding isClickUpUrl_split by blast
  from q t t2 have "t @ suf = t2 @ suf2" by simp
  then have "takeWhile isTailChar (t @ suf) = takeWhile isTailChar (t2 @ suf2)" by simp
  then have "t = t2" using takeWhile_run[OF t(2) g] takeWhile_run[OF t2(2) g2] by simp
  with t t2 show ?thesis by simp
qed

lemma clickUpUrlMatch_first:
  "containsUrl s \<Longrightarrow> \<exists>u. clickUpUrlMatch s = Some u \<and> firstUrlOf s u \<and> (\<forall>v. firstUrlOf s v \<longrightarrow> v = u)"
proof -
  assume "containsUrl s"
  then obtain u where u: "clickUpUrlMatch s = Some u"
    using clickUpUrlMatch_None[of s] by (cases "clickUpUrlMatch s") auto
  then have f: "firstUrlOf s u" by (rule clickUpUrlMatch_Some)
  then have "\<forall>v. firstUrlOf s v \<longrightarrow> v = u" using firstUrlOf_unique by blast
  with u f show ?thesis by blast
qed

lemma firstUrlInComments_skip:
  "\<forall>c\<in>set before. \<not> containsUrl (commentText c) \<Longrightarrow>
     firstUrlInComments (before @ rest) = firstUrlInComments rest"
  by (induction before) (auto simp: clickUpUrlMatch_None[symmetric])

lemma firstUrlInComments_none:
  "\<forall>c\<in>set cs. \<not> containsUrl (commentText c) \<Longrightarrow> firstUrlInComments cs = None"
  using firstUrlInComments_skip[of cs "[]"] by simp

lemma correlateIssue_none:
  "fst (parseClickUpUrlFromComments up (issue_id issue) w) = None \<Longrightarrow>
     fst (correlateIssue up issue cu w) = cu"
  by (cases "parseClickUpUrlFromComments up (issue_id issue) w") (simp add: correlateIssue_def)

lemma correlateIssue_found:
  "fst (parseClickUpUrlFromComments up (issue_id issue) w) = Some u \<Longrightarrow> u \<noteq> [] \<Longrightarrow>
     fst (correlateIssue up issue cu w) = setTaskMapping (issue_id issue) u cu"
  by (cases "parseClickUpUrlFromComments up (issue_id issue) w") (simp add: correlateIssue_def)

lemma parse_eq:
  "fst (parseClickUpUrlFromComments up i w) = firstUrlInComments (fst (getIssueComments up i w))"
  by (cases "getIssueComments up i w") (simp add: parseClickUpUrlFromComments_def)

lemma firstUrlOf_nonempty: "firstUrlOf s u \<Longrightarrow> u \<noteq> []"
  unfolding firstUrlOf_def isClickUpUrl_def by auto

text \<open>
  Claim C9. For a comment text that contains a substring of the URL shape (the prefix
  \<open>https://app.clickup.com/t/\<close> and at least one word character or hyphen), the pattern
  match returns the first such URL: the occurrence that starts leftmost, taken as far as
  its tail characters go, and no other string is the first URL. The text of the spec's
  scenario yields \<open>https://app.clickup.com/t/abc123\<close>. For a text without such a substring
  the match is empty. Over the comments of an issue, the correlator returns the first URL
  of the first comment that has one and records it for the issue; when no comment has
  one it returns nothing and the ClickUp store, with any reference it holds for the
  issue, stays as it is.
\<close>

theorem correlator_returns_first_url:
  "(containsUrl s \<longrightarrow>
      (\<exists>u. clickUpUrlMatch s = Some u \<and> firstUrlOf s u \<and> (\<forall>v. firstUrlOf s v \<longrightarrow> v = u)))
   \<and> (\<not> containsUrl s \<longrightarrow> clickUpUrlMatch s = None)
   \<and> clickUpUrlMatch ''See https://app.clickup.com/t/abc123 for tracking''
        = Some ''https://app.clickup.com/t/abc123''
   \<and> ((\<forall>c\<in>set before. \<not> containsUrl (commentText c)) \<and> containsUrl (commentText c0)
        \<and> fst (getIssueComments up (issue_id issue) w) = before @ c0 # after \<longrightarrow>
          (\<exists>u. fst (parseClickUpUrlFromComments up (issue_id issue) w) = Some u
               \<and> firstUrlOf (commentText c0) u
               \<and> fst (correlateIssue up issue cu w) = setTaskMapping (issue_id issue) u cu))
   \<and> ((\<forall>c\<in>set (fst (getIssueComments up (issue_id issue) w)). \<not> containsUrl (commentText c)) \<longrightarrow>
          fst (parseClickUpUrlFromComments up (issue_id issue) w) = None
          \<and> fst (correlateIssue up issue cu w) = cu)"
proof (intro conjI impI)
  assume "containsUrl s"
  then show "\<exists>u. clickUpUrlMatch s = Some u \<and> firstUrlOf s u \<and> (\<forall>v. firstUrlOf s v \<longrightarrow> v = u)"
    by (rule clickUpUrlMatch_first)
next
  assume "\<not> containsUrl s"
  then show "clickUpUrlMatch s = None" by (simp add: clickUpUrlMatch_None)
next
  show "clickUpUrlMatch ''See https://app.clickup.com/t/abc123 for tracking''
        = Some ''https://app.clickup.com/t/abc123''"
    by code_simp
next
  assume a: "(\<forall>c\<in>set before. \<not> containsUrl (commentText c)) \<and> containsUrl (commentText c0)
        \<and> fst (getIssueComments up (issue_id issue) w) = before @ c0 # after"
  then obtain u where u: "clickUpUrlMatch (commentText c0) = Some u" "firstUrlOf (commentText c0) u"
    using clickUpUrlMatch_first by blast
  from a have "firstUrlInComments (before @ c0 # after) = firstUrlInComments (c0 # after)"
    using firstUrlInComments_skip by blast
  with u(1) a have p: "fst (parseClickUpUrlFromComments up (issue_id issue) w) = Some u"
    by (simp add: parse_eq)
  from correlateIssue_found[OF p firstUrlOf_nonempty[OF u(2)]] p u(2)
  show "\<exists>u. fst (parseClickUpUrlFromComments up (issue_id issue) w) = Some u
               \<and> firstUrlOf (commentText c0) u
               \<and> fst (correlateIssue up issue cu w) = setTaskMapping (issue_id issue) u cu"
    by blast
next
  assume a: "\<forall>c\<in>set (fst (getIssueComments up (issue_id issue) w)). \<not> containsUrl (commentText c)"
  then show "fst (parseClickUpUrlFromComments up (issue_id issue) w) = None"
    by (simp add: parse_eq firstUrlInComments_none)
  then show "fst (correlateIssue up issue cu w) = cu" by (rule correlateIssue_none)
qed

theorem correlator_returns_first_url_witness:
  "containsUrl ''See https://app.clickup.com/t/abc123 for tracking''
   \<and> firstUrlOf ''See https://app.clickup.com/t/abc123 for tracking'' ''https://app.clickup.com/t/abc123''
   \<and> \<not> containsUrl ''no link here''
   \<and> clickUpUrlMatch ''no link here'' = None
   \<and> fst (getIssueComments exampleUpstream (issue_id exampleIssue) []) = [] @ exampleComment # []
   \<and> fst (correlateIssue exampleUpstream exampleIssue (clickUpStore new_StoreManager) [])
       = setTaskMapping ''4001'' ''https://app.clickup.com/t/abc123'' (clickUpStore new_StoreManager)
   \<and> fst (getIssueComments failingUpstream (issue_id exampleIssue) []) = []
   \<and> fst (correlateIssue failingUpstream exampleIssue
            (setTaskMapping ''4001'' ''https://app.clickup.com/t/old'' (clickUpStore new_StoreManager)) [])
       = setTaskMapping ''4001'' ''https://app.clickup.com/t/old'' (clickUpStore new_StoreManager)"
proof -
  define ex where "ex = ''See https://app.clickup.com/t/abc123 for tracking''"
  define url where "url = ''https://app.clickup.com/t/abc123''"
  define plain where "plain = ''no link here''"
  define cu where "cu = setTaskMapping ''4001'' ''https://app.clickup.com/t/old'' (clickUpStore new_StoreManager)"
  note thm1 = correlator_returns_first_url[of ex "[]" exampleComment exampleUpstream exampleIssue "[]" "[]"
      "clickUpStore new_StoreManager"]
  note thm2 = correlator_returns_first_url[of plain "[]" exampleComment failingUpstream exampleIssue "[]" "[]" cu]
  have m: "clickUpUrlMatch ex = Some url" unfolding ex_def url_def by code_simp
  then have c1: "containsUrl ex" using clickUpUrlMatch_None[of ex] by simp
  from thm1[THEN conjunct1] c1 obtain u where "clickUpUrlMatch ex = Some u" "firstUrlOf ex u" by blast
  with m have f: "firstUrlOf ex url" by simp
  have n0: "clickUpUrlMatch plain = None" unfolding plain_def by code_simp
  then have n: "\<not> containsUrl plain" using clickUpUrlMatch_None[of plain] by simp
  from thm2[THEN conjunct2, THEN conjunct1] n have n1: "clickUpUrlMatch plain = None" by (rule mp)
  have g: "fst (getIssueComments exampleUpstream (issue_id exampleIssue) []) = [] @ exampleComment # []"
    by code_simp
  have ct: "commentText exampleComment = ex" unfolding ex_def by code_simp
  have i: "issue_id exampleIssue = ''4001''" by code_simp
  have h4: "(\<forall>c\<in>set []. \<not> containsUrl (commentText c)) \<and> containsUrl (commentText exampleComment)
        \<and> fst (getIssueComments exampleUpstream (issue_id exampleIssue) []) = [] @ exampleComment # []"
    using c1 g ct by simp
  from thm1[THEN conjunct2, THEN conjunct2, THEN conjunct2, THEN conjunct1] h4
  obtain v where v: "fst (parseClickUpUrlFromComments exampleUpstream (issue_id exampleIssue) []) = Some v"
    "firstUrlOf (commentText exampleComment) v"
    "fst (correlateIssue exampleUpstream exampleIssue (clickUpStore new_StoreManager) [])
       = setTaskMapping (issue_id exampleIssue) v (clickUpStore new_StoreManager)"
    by blast
  from v(2) f have "v = url" unfolding ct by (rule firstUrlOf_unique)
  with v(3) i have s: "fst (correlateIssue exampleUpstream exampleIssue (clickUpStore new_StoreManager) [])
       = setTaskMapping ''4001'' url (clickUpStore new_StoreManager)"
    by simp
  have e: "fst (getIssueComments failingUpstream (issue_id exampleIssue) []) = []" by code_simp
  then have a: "\<forall>c\<in>set (fst (getIssueComments failingUpstream (issue_id exampleIssue) [])). \<not> containsUrl (commentText c)"
    by simp
  from thm2[THEN conjunct2, THEN conjunct2, THEN conjunct2, THEN conjunct2] a
  have u: "fst (correlateIssue failingUpstream exampleIssue cu []) = cu" by blast
  from c1 f n n1 g s e u show ?thesis unfolding ex_def url_def plain_def cu_def by (intro conjI)
qed

section \<open>The correlation never clears a task reference\<close>

lemma taskMap_setTaskMapping:
  "map_get (issueTaskMap (setTaskMapping i u cu)) k
     = (if k = i then Some u else map_get (issueTaskMap cu) k)"
  by (simp add: setTaskMapping_def map_get_map_set)

lemma correlateIssue_cases:
  "fst (correlateIssue up issue cu w) = cu
   \<or> (\<exists>u. fst (parseClickUpUrlFromComments up (issue_id issue) w) = Some u
          \<and> fst (correlateIssue up issue cu w) = setTaskMapping (issue_id issue) u cu)"
  by (cases "parseClickUpUrlFromComments up (issue_id issue) w")
     (auto simp: correlateIssue_def split: option.splits)

lemma correlateIssue_keeps:
  assumes "map_get (issueTaskMap cu) k = Some v"
  shows "\<exists>v'. map_get (issueTaskMap (fst (correlateIssue up issue cu w))) k = Some v'"
  using correlateIssue_cases[of up issue cu w] assms by (auto simp: taskMap_setTaskMapping)

lemma correlateIssues_keeps:
  "map_get (issueTaskMap cu) k = Some v \<Longrightarrow>
     \<exists>v'. map_get (issueTaskMap (fst (correlateIssues up issues cu w))) k = Some v'"
proof (induction issues arbitrary: cu w v)
  case Nil
  then show ?case by simp
next
  case (Cons issue issues)
  obtain cu' w' where s: "correlateIssue up issue cu w = (cu', w')" by (cases "correlateIssue up issue cu w")
  with correlateIssue_keeps[OF Cons.prems, of up issue w]
  obtain v' where "map_get (issueTaskMap cu') k = Some v'" by auto
  from Cons.IH[OF this] s show ?case by simp
qed

lemma correlateProjects_keeps:
  "map_get (issueTaskMap cu) k = Some v \<Longrightarrow>
     \<exists>v'. map_get (issueTaskMap (fst (correlateProjects up m cu w))) k = Some v'"
proof (induction m arbitrary: cu w v)
  case Nil
  then show ?case by simp
next
  case (Cons p m)
  obtain project issues where p: "p = (project, issues)" by (cases p)
  obtain cu' w' where s: "correlateIssues up issues cu w = (cu', w')" by (cases "correlateIssues up issues cu w")
  with correlateIssues_keeps[OF Cons.prems, of up issues w]
  obtain v' where "map_get (issueTaskMap cu') k = Some v'" by auto
  from Cons.IH[OF this] s p show ?case by simp
qed

lemma correlateIssue_same:
  assumes "noUrlFor up k"
  shows "map_get (issueTaskMap (fst (correlateIssue up issue cu w))) k = map_get (issueTaskMap cu) k"
proof (cases "issue_id issue = k")
  case True
  with assms have "fst (parseClickUpUrlFromComments up (issue_id issue) w) = None"
    unfolding noUrlFor_def by simp
  then show ?thesis by (simp add: correlateIssue_none)
next
  case False
  with correlateIssue_cases[of up issue cu w] show ?thesis by (auto simp: taskMap_setTaskMapping)
qed

lemma correlateIssues_same:
  "noUrlFor up k \<Longrightarrow>
     map_get (issueTaskMap (fst (correlateIssues up issues cu w))) k = map_get (issueTaskMap cu) k"
proof (induction issues arbitrary: cu w)
  case Nil
  show ?case by simp
next
  case (Cons issue issues)
  obtain cu' w' where s: "correlateIssue up issue cu w = (cu', w')" by (cases "correlateIssue up issue cu w")
  with correlateIssue_same[OF Cons.prems, of issue cu w]
  have "map_get (issueTaskMap cu') k = map_get (issueTaskMap cu) k" by simp
  with Cons.IH[OF Cons.prems, of cu' w'] s show ?case by simp
qed

lemma correlateProjects_same:
  "noUrlFor up k \<Longrightarrow>
     map_get (issueTaskMap (fst (correlateProjects up m cu w))) k = map_get (issueTaskMap cu) k"
proof (induction m arbitrary: cu w)
  case Nil
  show ?case by simp
next
  case (Cons p m)
  obtain project issues where p: "p = (project, issues)" by (cases p)
  obtain cu' w' where s: "correlateIssues up issues cu w = (cu', w')" by (cases "correlateIssues up issues cu w")
  with correlateIssues_same[OF Cons.prems, of issues cu w]
  have "map_get (issueTaskMap cu') k = map_get (issueTaskMap cu) k" by simp
  with Cons.IH[OF Cons.prems, of cu' w'] s p show ?case by simp
qed

lemma refreshSentry_clickUpStore:
  "clickUpStore (fst (refreshSentry up sm w)) =
     (case sentryClient sm of
        None \<Rightarrow> clickUpStore sm
      | Some client \<Rightarrow>
          fst (correlateProjects up (fst (fetchAllIssues up client w)) (clickUpStore sm)
                 (snd (fetchAllIssues up client w))))"
  by (simp add: refreshSentry_def sentryStore_refresh_def Let_def split: option.splits prod.splits)

lemma createClickUpTask_sets:
  assumes "createClickUpTask up issueId issueTitle issueUrl sm w = (Inr (taskId, taskUrl), sm1, w1)"
  shows "getClickUpTaskUrl sm1 issueId = Some taskUrl"
  using assms
  by (auto simp: createClickUpTask_def getClickUpTaskUrl_def taskMap_setTaskMapping
           split: option.splits if_splits prod.splits sum.splits)

text \<open>
  Claim C4. When \<open>createClickUpTask\<close> has succeeded for an issue, the task URL is the
  issue's reference; a scan of that issue's comments that finds no URL leaves the ClickUp
  store as it was; and a whole \<open>refreshSentry\<close> against an upstream whose comments for
  the issue have no URL leaves the reference at that URL. No \<open>refreshSentry\<close> removes
  an entry of the issue-to-task map.
\<close>

theorem scan_keeps_task_reference:
  "(createClickUpTask up issueId issueTitle issueUrl sm w = (Inr (taskId, taskUrl), sm1, w1) \<longrightarrow>
      getClickUpTaskUrl sm1 issueId = Some taskUrl
      \<and> (\<forall>(issue :: SentryIssue) w2. issue_id issue = issueId
                     \<and> fst (parseClickUpUrlFromComments up issueId w2) = None \<longrightarrow>
            fst (correlateIssue up issue (clickUpStore sm1) w2) = clickUpStore sm1)
      \<and> (noUrlFor up issueId \<longrightarrow>
            getClickUpTaskUrl (fst (refreshSentry up sm1 w1)) issueId = Some taskUrl))
   \<and> (getClickUpTaskUrl sm k = Some v \<longrightarrow>
        (\<exists>v'. getClickUpTaskUrl (fst (refreshSentry up sm w)) k = Some v'))"
proof (intro conjI impI allI)
  assume a: "createClickUpTask up issueId issueTitle issueUrl sm w = (Inr (taskId, taskUrl), sm1, w1)"
  then show s: "getClickUpTaskUrl sm1 issueId = Some taskUrl" by (rule createClickUpTask_sets)
  {
    fix issue :: SentryIssue and w2
    assume "issue_id issue = issueId \<and> fst (parseClickUpUrlFromComments up issueId w2) = None"
    then show "fst (correlateIssue up issue (clickUpStore sm1) w2) = clickUpStore sm1"
      using correlateIssue_none[of up issue w2] by simp
  }
  {
    assume "noUrlFor up issueId"
    then show "getClickUpTaskUrl (fst (refreshSentry up sm1 w1)) issueId = Some taskUrl"
      using s
      by (simp add: getClickUpTaskUrl_def refreshSentry_clickUpStore correlateProjects_same
               split: option.splits)
  }
next
  assume "getClickUpTaskUrl sm k = Some v"
  then show "\<exists>v'. getClickUpTaskUrl (fst (refreshSentry up sm w)) k = Some v'"
    using correlateProjects_keeps[of "clickUpStore sm" k v up]
    by (simp add: getClickUpTaskUrl_def refreshSentry_clickUpStore split: option.splits)
qed

theorem scan_keeps_task_reference_witness:
  "fst (createClickUpTask scanUpstream ''4001'' ''TypeError'' ''https://sentry.io/i/4001'' boardManager [])
     = Inr (''t1'', ''https://app.clickup.com/t/t1'')
   \<and> noUrlFor scanUpstream ''4001''
   \<and> fst (fetchAllIssues scanUpstream exampleConfig
             (snd (snd (createClickUpTask scanUpstream ''4001'' ''TypeError''
                          ''https://sentry.io/i/4001'' boardManager []))))
       = [(''acme/web'', []), (''acme/api'', [exampleIssue])]
   \<and> issue_id exampleIssue = ''4001''
   \<and> fst (getIssueComments scanUpstream ''4001'' []) = [plainComment]
   \<and> fst (parseClickUpUrlFromComments scanUpstream ''4001'' []) = None
   \<and> fst (correlateIssue scanUpstream exampleIssue
             (clickUpStore (fst (snd (createClickUpTask scanUpstream ''4001'' ''TypeError''
                                        ''https://sentry.io/i/4001'' boardManager [])))) [])
       = clickUpStore (fst (snd (createClickUpTask scanUpstream ''4001'' ''TypeError''
                                   ''https://sentry.io/i/4001'' boardManager [])))
   \<and> snd (refreshSentry scanUpstream
        (fst (snd (createClickUpTask scanUpstream ''4001'' ''TypeError'' ''https://sentry.io/i/4001''
                     boardManager [])))
        (snd (snd (createClickUpTask scanUpstream ''4001'' ''TypeError'' ''https://sentry.io/i/4001''
                     boardManager []))))
       = [PostTask ''L1'' ''Sentry: TypeError'' ''Sentry Issue: https://sentry.io/i/4001''
            [''Sentry AutoFix''],
          GetOrgIssues ''acme'' (issueQuery ''web''), GetOrgIssues ''acme'' (issueQuery ''api''),
          GetIssueComments ''4001'']
   \<and> getClickUpTaskUrl
        (fst (refreshSentry scanUpstream
           (fst (snd (createClickUpTask scanUpstream ''4001'' ''TypeError'' ''https://sentry.io/i/4001''
                        boardManager [])))
           (snd (snd (createClickUpTask scanUpstream ''4001'' ''TypeError'' ''https://sentry.io/i/4001''
                        boardManager [])))))
        ''4001'' = Some ''https://app.clickup.com/t/t1''"
proof -
  define r where "r = createClickUpTask scanUpstream ''4001'' ''TypeError'' ''https://sentry.io/i/4001'' boardManager []"
  have f: "fst r = Inr (''t1'', ''https://app.clickup.com/t/t1'')" unfolding r_def by code_simp
  then have e: "r = (Inr (''t1'', ''https://app.clickup.com/t/t1''), fst (snd r), snd (snd r))"
    by (cases r) simp
  have k: "firstUrlInComments [plainComment] = None" by code_simp
  have n: "noUrlFor scanUpstream ''4001''"
    by (simp add: noUrlFor_def parseClickUpUrlFromComments_def getIssueComments_def scanUpstream_def k
          del: firstUrlInComments.simps)
  then have p: "fst (parseClickUpUrlFromComments scanUpstream ''4001'' []) = None"
    unfolding noUrlFor_def by simp
  have i: "issue_id exampleIssue = ''4001''" by code_simp
  have fetched: "fst (fetchAllIssues scanUpstream exampleConfig (snd (snd r)))
       = [(''acme/web'', []), (''acme/api'', [exampleIssue])]"
    unfolding r_def by code_simp
  have c: "fst (getIssueComments scanUpstream ''4001'' []) = [plainComment]" by code_simp
  have l: "snd (refreshSentry scanUpstream (fst (snd r)) (snd (snd r)))
       = [PostTask ''L1'' ''Sentry: TypeError'' ''Sentry Issue: https://sentry.io/i/4001''
            [''Sentry AutoFix''],
          GetOrgIssues ''acme'' (issueQuery ''web''), GetOrgIssues ''acme'' (issueQuery ''api''),
          GetIssueComments ''4001'']"
    unfolding r_def by code_simp
  note inst = scan_keeps_task_reference[of scanUpstream "''4001''" "''TypeError''" "''https://sentry.io/i/4001''"
      boardManager "[]" "''t1''" "''https://app.clickup.com/t/t1''" "fst (snd r)" "snd (snd r)"]
  from inst[THEN conjunct1] e[unfolded r_def]
  have both: "(\<forall>(issue :: SentryIssue) w2. issue_id issue = ''4001''
                     \<and> fst (parseClickUpUrlFromComments scanUpstream ''4001'' w2) = None \<longrightarrow>
            fst (correlateIssue scanUpstream issue (clickUpStore (fst (snd r))) w2) = clickUpStore (fst (snd r)))
      \<and> (noUrlFor scanUpstream ''4001'' \<longrightarrow>
          getClickUpTaskUrl (fst (refreshSentry scanUpstream (fst (snd r)) (snd (snd r)))) ''4001''
            = Some ''https://app.clickup.com/t/t1'')"
    unfolding r_def by blast
  from both i p have s: "fst (correlateIssue scanUpstream exampleIssue (clickUpStore (fst (snd r))) [])
       = clickUpStore (fst (snd r))"
    by blast
  from both n have g: "getClickUpTaskUrl (fst (refreshSentry scanUpstream (fst (snd r)) (snd (snd r)))) ''4001''
            = Some ''https://app.clickup.com/t/t1''"
    by blast
  from f n fetched i c p s l g show ?thesis unfolding r_def by (intro conjI)
qed

section \<open>Change notifications of a refresh\<close>








section \<open>Concurrent calls of the issue refresh\<close>

lemma correlateIssue_log: "\<exists>ws. snd (correlateIssue up issue cu w) = w @ ws"
  by (auto simp: correlateIssue_def parseClickUpUrlFromComments_def getIssueComments_def
           split: prod.splits option.splits sum.splits)

lemma correlateIssues_log: "\<exists>ws. snd (correlateIssues up issues cu w) = w @ ws"
proof (induction issues arbitrary: cu w)
  case Nil
  show ?case by simp
next
  case (Cons issue issues)
  obtain cu' w' where s: "correlateIssue up issue cu w = (cu', w')" by (cases "correlateIssue up issue cu w")
  with correlateIssue_log[of up issue cu w] obtain ws where "w' = w @ ws" by auto
  moreover from Cons.IH[of cu' w'] obtain ws' where "snd (correlateIssues up issues cu' w') = w' @ ws'" by blast
  ultimately show ?case using s by simp
qed

lemma correlateProjects_log: "\<exists>ws. snd (correlateProjects up m cu w) = w @ ws"
proof (induction m arbitrary: cu w)
  case Nil
  show ?case by simp
next
  case (Cons p m)
  obtain project issues where p: "p = (project, issues)" by (cases p)
  obtain cu' w' where s: "correlateIssues up issues cu w = (cu', w')" by (cases "correlateIssues up issues cu w")
  with correlateIssues_log[of up issues cu w] obtain ws where "w' = w @ ws" by auto
  moreover from Cons.IH[of cu' w'] obtain ws' where "snd (correlateProjects up m cu' w') = w' @ ws'" by blast
  ultimately show ?case using s p by simp
qed

lemma run_call_during_fetch:
  assumes "is_sentryClient s = Some client" "\<not> isRefreshing s"
  shows "callers (run up [Call, Call, FetchDone 0, SaveDone 0] (start s w))
           = [Returned (fst (fetchAllIssues up client w)), Returned (is_issuesByProject s)]"
    and "log (run up [Call, Call, FetchDone 0, SaveDone 0] (start s w)) = snd (fetchAllIssues up client w)"
    and "is_issuesByProject (store (run up [Call, Call, FetchDone 0, SaveDone 0] (start s w)))
           = fst (fetchAllIssues up client w)"
    and "\<not> isRefreshing (store (run up [Call, Call, FetchDone 0, SaveDone 0] (start s w)))"
  using assms
  by (simp_all add: start_def exec_def refresh_call_def refresh_fetched_def refresh_saved_def
        split: prod.splits)

lemma run_call_during_save:
  assumes "is_sentryClient s = Some client" "\<not> isRefreshing s"
  shows "callers (run up [Call, FetchDone 0, Call, SaveDone 0] (start s w))
           = [Returned (fst (fetchAllIssues up client w)), Returned (fst (fetchAllIssues up client w))]"
    and "log (run up [Call, FetchDone 0, Call, SaveDone 0] (start s w)) = snd (fetchAllIssues up client w)"
  using assms
  by (simp_all add: start_def exec_def refresh_call_def refresh_fetched_def refresh_saved_def
        split: prod.splits)

lemma call_log: "log (exec up Call st) = log st"
  by (simp add: exec_def split: prod.splits)

lemma guard:
  "is_sentryClient s = Some client \<Longrightarrow> isRefreshing s \<Longrightarrow> refresh_call s = (Returned (is_issuesByProject s), s)"
  by (simp add: refresh_call_def)

text \<open>
  Claim C1, as the code has it. In \<open>IssueStore.refresh\<close>, from an idle store with a client,
  a second call made while the first awaits its fetch returns at once the mapping the
  store holds then, which is the old one; made while the first awaits the cache write,
  it returns the fetched mapping. Either way the first caller gets the fetched mapping
  and the requests sent are those of one \<open>fetchAllIssues\<close>. In any state with
  \<open>isRefreshing\<close> set, a call returns the current mapping and changes nothing, and no
  call touches the request log by itself. \<open>StoreManager.refreshSentry\<close> has no such
  guard: every call with a tracker client sends the requests of its own fetch and
  replaces the mapping with its result.
\<close>

theorem concurrent_refresh_coalesced:
  "(is_sentryClient s = Some client \<and> \<not> isRefreshing s \<longrightarrow>
      callers (run up [Call, Call, FetchDone 0, SaveDone 0] (start s w))
        = [Returned (fst (fetchAllIssues up client w)), Returned (is_issuesByProject s)]
      \<and> log (run up [Call, Call, FetchDone 0, SaveDone 0] (start s w)) = snd (fetchAllIssues up client w)
      \<and> callers (run up [Call, FetchDone 0, Call, SaveDone 0] (start s w))
        = [Returned (fst (fetchAllIssues up client w)), Returned (fst (fetchAllIssues up client w))]
      \<and> log (run up [Call, FetchDone 0, Call, SaveDone 0] (start s w)) = snd (fetchAllIssues up client w))
   \<and> (is_sentryClient s = Some client \<and> isRefreshing s \<longrightarrow>
        refresh_call s = (Returned (is_issuesByProject s), s))
   \<and> log (exec up Call st) = log st
   \<and> (sentryClient sm = Some client \<longrightarrow>
        issuesByProject (sentryStore (fst (refreshSentry up sm w))) = fst (fetchAllIssues up client w)
        \<and> (\<exists>ws. snd (refreshSentry up sm w) = snd (fetchAllIssues up client w) @ ws))"
proof (intro conjI impI)
  assume a: "is_sentryClient s = Some client \<and> \<not> isRefreshing s"
  then show "callers (run up [Call, Call, FetchDone 0, SaveDone 0] (start s w))
        = [Returned (fst (fetchAllIssues up client w)), Returned (is_issuesByProject s)]"
    using run_call_during_fetch(1) by blast
  from a show "log (run up [Call, Call, FetchDone 0, SaveDone 0] (start s w)) = snd (fetchAllIssues up client w)"
    using run_call_during_fetch(2) by blast
  from a show "callers (run up [Call, FetchDone 0, Call, SaveDone 0] (start s w))
        = [Returned (fst (fetchAllIssues up client w)), Returned (fst (fetchAllIssues up client w))]"
    using run_call_during_save(1) by blast
  from a show "log (run up [Call, FetchDone 0, Call, SaveDone 0] (start s w)) = snd (fetchAllIssues up client w)"
    using run_call_during_save(2) by blast
next
  assume "is_sentryClient s = Some client \<and> isRefreshing s"
  then show "refresh_call s = (Returned (is_issuesByProject s), s)" using guard by blast
next
  show "log (exec up Call st) = log st" by (rule call_log)
next
  assume c: "sentryClient sm = Some client"
  then show "issuesByProject (sentryStore (fst (refreshSentry up sm w))) = fst (fetchAllIssues up client w)"
    by (simp add: refreshSentry_client sentryStore_refresh_def Let_def split: prod.splits)
  from c show "\<exists>ws. snd (refreshSentry up sm w) = snd (fetchAllIssues up client w) @ ws"
    using correlateProjects_log by (simp add: refreshSentry_client)
qed

text \<open>
  Claim C1 as stated (both callers receive the mapping of the refresh in flight) fails:
  the second caller receives the empty mapping the store held before, the first the
  fetched one.
\<close>

theorem concurrent_refresh_counterexample:
  "callers (run failingUpstream [Call, Call, FetchDone 0, SaveDone 0] (start idleStore []))
     = [Returned [(''acme/web'', [])], Returned []]"
  by code_simp

theorem concurrent_refresh_coalesced_witness:
  "is_sentryClient idleStore = Some webConfig \<and> \<not> isRefreshing idleStore
   \<and> callers (run failingUpstream [Call, Call, FetchDone 0, SaveDone 0] (start idleStore []))
        = [Returned [(''acme/web'', [])], Returned []]
   \<and> length (log (run failingUpstream [Call, Call, FetchDone 0, SaveDone 0] (start idleStore []))) = 1
   \<and> isRefreshing (snd (refresh_call idleStore))
   \<and> refresh_call (snd (refresh_call idleStore)) = (Returned [], snd (refresh_call idleStore))"
proof -
  have a: "is_sentryClient idleStore = Some webConfig \<and> \<not> isRefreshing idleStore" by code_simp
  have f: "fst (fetchAllIssues failingUpstream webConfig []) = [(''acme/web'', [])]" by code_simp
  have g: "length (snd (fetchAllIssues failingUpstream webConfig [])) = 1" by code_simp
  have i: "is_issuesByProject idleStore = []" by code_simp
  note inst = concurrent_refresh_coalesced[of idleStore webConfig failingUpstream "[]"]
  from inst[THEN conjunct1] a
  have c: "callers (run failingUpstream [Call, Call, FetchDone 0, SaveDone 0] (start idleStore []))
        = [Returned (fst (fetchAllIssues failingUpstream webConfig [])), Returned (is_issuesByProject idleStore)]"
    and l: "log (run failingUpstream [Call, Call, FetchDone 0, SaveDone 0] (start idleStore []))
        = snd (fetchAllIssues failingUpstream webConfig [])"
    by blast+
  have b: "is_sentryClient (snd (refresh_call idleStore)) = Some webConfig \<and> isRefreshing (snd (refresh_call idleStore))"
    by code_simp
  have j: "is_issuesByProject (snd (refresh_call idleStore)) = []" by code_simp
  from concurrent_refresh_coalesced[of "snd (refresh_call idleStore)" webConfig, THEN conjunct2, THEN conjunct1] b
  have r: "refresh_call (snd (refresh_call idleStore))
        = (Returned (is_issuesByProject (snd (refresh_call idleStore))), snd (refresh_call idleStore))"
    by blast
  from a c[unfolded f i] l g b r[unfolded j] show ?thesis by simp
qed

section \<open>The stack trace of the detail operation\<close>

lemma foldl_append_lines: "foldl (\<lambda>d x. d @ f x) details xs = details @ concat (map f xs)"
  by (induction xs arbitrary: details) simp_all

lemma appendFrames_eq: "appendFrames details frames = details @ concat (map frameLine (rev frames))"
  by (simp add: appendFrames_def foldl_append_lines)

lemma appendException_eq: "appendException details exception = details @ exceptionBlock exception"
  by (simp add: appendException_def appendFrames_eq exceptionBlock_def)

lemma foldl_appendException: "foldl appendException details xs = details @ concat (map exceptionBlock xs)"
  by (induction xs arbitrary: details) (simp_all add: appendException_eq)

lemma appendExceptions_eq:
  "appendExceptions details vals = details @ concat (map exceptionBlock (rev vals))"
  by (simp add: appendExceptions_def foldl_appendException)

lemma appendStackTrace_eq:
  assumes "find (\<lambda>entry. entry_type entry = ''exception'') (entries ev) = Some exceptionEntry"
    "data_values exceptionEntry = Some vals"
  shows "appendStackTrace details ev =
           details @ ''## Stack Trace'' @ nl @ nl @ backticks @ nl
             @ concat (map exceptionBlock (rev vals)) @ backticks @ nl @ nl"
  using assms by (simp add: appendStackTrace_def appendExceptions_eq)

lemma appendBreadcrumbs_eq: "appendBreadcrumbs pf details ev = details @ appendBreadcrumbs pf [] ev"
  by (simp add: appendBreadcrumbs_def foldl_append_lines)

lemma appendTags_eq: "appendTags details ev = details @ appendTags [] ev"
  by (simp add: appendTags_def foldl_append_lines)

lemma detailsText_stack:
  assumes "find (\<lambda>entry. entry_type entry = ''exception'') (entries ev) = Some exceptionEntry"
    "data_values exceptionEntry = Some vals"
  shows "detailsText pf foundProject foundIssue (Some ev) =
           detailsHead pf foundProject foundIssue
             @ ''## Error Message'' @ nl @ nl
             @ tmpl (js_or (metadata_value foundIssue) (Some (message ev))) @ nl @ nl
             @ ''## Stack Trace'' @ nl @ nl @ backticks @ nl
             @ concat (map exceptionBlock (rev vals))
             @ backticks @ nl @ nl
             @ appendBreadcrumbs pf [] ev @ appendTags [] ev @ detailsFoot foundIssue"
  unfolding detailsText_def appendEvent_def option.case
  by (subst appendTags_eq, subst appendBreadcrumbs_eq, subst appendStackTrace_eq[OF assms]) simp

lemma getIssueDetails_found:
  assumes "arg_issueId args = Some issueId" "issueId \<noteq> []"
    "findIssue issueId (fst (fetchAllIssues up (mcp_sentryClient srv) w)) = Some (foundProject, foundIssue)"
  shows "fst (getIssueDetails pf up srv (Some args) w) =
           Inr \<lparr>text_of = detailsText pf foundProject foundIssue
                   (fst (fetchLatestEvent up (issue_id foundIssue) (snd (fetchAllIssues up (mcp_sentryClient srv) w)))),
                isError = False\<rparr>"
proof -
  obtain m w1 where f: "fetchAllIssues up (mcp_sentryClient srv) w = (m, w1)"
    by (cases "fetchAllIssues up (mcp_sentryClient srv) w")
  obtain event w2 where e: "fetchLatestEvent up (issue_id foundIssue) w1 = (event, w2)"
    by (cases "fetchLatestEvent up (issue_id foundIssue) w1")
  from assms f e show ?thesis
    by (simp add: getIssueDetails_def truthy_def tmpl_def)
qed

text \<open>
  Claim C5. When the issue is found and its latest event has an exception entry with
  values, the text of \<open>getIssueDetails\<close> has, between the error message and the
  breadcrumbs, the stack trace block with the exceptions in the reverse of the stored
  order and, under each exception, its frames in the reverse of the upstream order: for
  frames \<open>[outer, middle, inner]\<close> the line of \<open>inner\<close> comes first, and of the stored
  exceptions the last one (the originating exception) is printed first.
\<close>

theorem details_innermost_frame_first:
  "(arg_issueId args = Some issueId \<and> issueId \<noteq> []
    \<and> findIssue issueId (fst (fetchAllIssues up (mcp_sentryClient srv) w)) = Some (foundProject, foundIssue)
    \<and> fst (fetchLatestEvent up (issue_id foundIssue) (snd (fetchAllIssues up (mcp_sentryClient srv) w))) = Some ev
    \<and> find (\<lambda>entry. entry_type entry = ''exception'') (entries ev) = Some exceptionEntry
    \<and> data_values exceptionEntry = Some vals \<longrightarrow>
      fst (getIssueDetails pf up srv (Some args) w) =
        Inr \<lparr>text_of =
               detailsHead pf foundProject foundIssue
                 @ ''## Error Message'' @ nl @ nl
                 @ tmpl (js_or (metadata_value foundIssue) (Some (message ev))) @ nl @ nl
                 @ ''## Stack Trace'' @ nl @ nl @ backticks @ nl
                 @ concat (map exceptionBlock (rev vals))
                 @ backticks @ nl @ nl
                 @ appendBreadcrumbs pf [] ev @ appendTags [] ev @ detailsFoot foundIssue,
             isError = False\<rparr>)
   \<and> (stacktrace_frames exception = Some [outer, middle, inner] \<longrightarrow>
        exceptionBlock exception
          = exceptionLine exception @ frameLine inner @ frameLine middle @ frameLine outer)
   \<and> concat (map exceptionBlock (rev [first, second, originating]))
       = exceptionBlock originating @ exceptionBlock second @ exceptionBlock first"
proof (intro conjI impI)
  assume a: "arg_issueId args = Some issueId \<and> issueId \<noteq> []
    \<and> findIssue issueId (fst (fetchAllIssues up (mcp_sentryClient srv) w)) = Some (foundProject, foundIssue)
    \<and> fst (fetchLatestEvent up (issue_id foundIssue) (snd (fetchAllIssues up (mcp_sentryClient srv) w))) = Some ev
    \<and> find (\<lambda>entry. entry_type entry = ''exception'') (entries ev) = Some exceptionEntry
    \<and> data_values exceptionEntry = Some vals"
  then have "fst (getIssueDetails pf up srv (Some args) w) =
           Inr \<lparr>text_of = detailsText pf foundProject foundIssue (Some ev), isError = False\<rparr>"
    using getIssueDetails_found[of args issueId up srv w foundProject foundIssue pf] by simp
  moreover from a have "detailsText pf foundProject foundIssue (Some ev) =
           detailsHead pf foundProject foundIssue
             @ ''## Error Message'' @ nl @ nl
             @ tmpl (js_or (metadata_value foundIssue) (Some (message ev))) @ nl @ nl
             @ ''## Stack Trace'' @ nl @ nl @ backticks @ nl
             @ concat (map exceptionBlock (rev vals))
             @ backticks @ nl @ nl
             @ appendBreadcrumbs pf [] ev @ appendTags [] ev @ detailsFoot foundIssue"
    using detailsText_stack by blast
  ultimately show "fst (getIssueDetails pf up srv (Some args) w) =
        Inr \<lparr>text_of =
               detailsHead pf foundProject foundIssue
                 @ ''## Error Message'' @ nl @ nl
                 @ tmpl (js_or (metadata_value foundIssue) (Some (message ev))) @ nl @ nl
                 @ ''## Stack Trace'' @ nl @ nl @ backticks @ nl
                 @ concat (map exceptionBlock (rev vals))
                 @ backticks @ nl @ nl
                 @ appendBreadcrumbs pf [] ev @ appendTags [] ev @ detailsFoot foundIssue,
             isError = False\<rparr>"
    by simp
next
  assume "stacktrace_frames exception = Some [outer, middle, inner]"
  then show "exceptionBlock exception
          = exceptionLine exception @ frameLine inner @ frameLine middle @ frameLine outer"
    by (simp add: exceptionBlock_def listOr_def)
next
  show "concat (map exceptionBlock (rev [first, second, originating]))
       = exceptionBlock originating @ exceptionBlock second @ exceptionBlock first"
    by simp
qed

theorem details_innermost_frame_first_witness:
  "arg_issueId (noArgs\<lparr>arg_issueId := Some ''WEB-1''\<rparr>) = Some ''WEB-1'' \<and> ''WEB-1'' \<noteq> []
   \<and> findIssue ''WEB-1'' (fst (fetchAllIssues eventUpstream (mcp_sentryClient exampleServer) []))
        = Some (''acme/api'', exampleIssue)
   \<and> find (\<lambda>entry. entry_type entry = ''exception'') (entries exampleEvent) = Some exampleEntry
   \<and> data_values exampleEntry = Some [exampleException]
   \<and> stacktrace_frames exampleException = Some [outerFrame, middleFrame, innerFrame]
   \<and> fst (getIssueDetails examplePlatform eventUpstream exampleServer
             (Some (noArgs\<lparr>arg_issueId := Some ''WEB-1''\<rparr>)) []) =
        Inr \<lparr>text_of =
               detailsHead examplePlatform ''acme/api'' exampleIssue
                 @ ''## Error Message'' @ nl @ nl @ ''x is undefined'' @ nl @ nl
                 @ ''## Stack Trace'' @ nl @ nl @ backticks @ nl
                 @ ''TypeError: x is undefined'' @ nl
                 @ ''  at inner (c.js:3)'' @ nl
                 @ ''  at middle (b.js:2)'' @ nl
                 @ ''  at outer (a.js:1)'' @ nl
                 @ backticks @ nl @ nl
                 @ detailsFoot exampleIssue,
             isError = False\<rparr>"
proof -
  define args where "args = noArgs\<lparr>arg_issueId := Some ''WEB-1''\<rparr>"
  have a1: "arg_issueId args = Some ''WEB-1'' \<and> ''WEB-1'' \<noteq> []" unfolding args_def by code_simp
  have a2: "findIssue ''WEB-1'' (fst (fetchAllIssues eventUpstream (mcp_sentryClient exampleServer) []))
        = Some (''acme/api'', exampleIssue)" by code_simp
  have a3: "fst (fetchLatestEvent eventUpstream (issue_id exampleIssue)
                  (snd (fetchAllIssues eventUpstream (mcp_sentryClient exampleServer) []))) = Some exampleEvent"
    by (simp add: fetchLatestEvent_def eventUpstream_def)
  have a4: "find (\<lambda>entry. entry_type entry = ''exception'') (entries exampleEvent) = Some exampleEntry"
    by (simp add: exampleEvent_def exampleEntry_def)
  have a5: "data_values exampleEntry = Some [exampleException]" by (simp add: exampleEntry_def)
  have a6: "stacktrace_frames exampleException = Some [outerFrame, middleFrame, innerFrame]"
    by (simp add: exampleException_def)
  note inst = details_innermost_frame_first[of args "''WEB-1''" eventUpstream exampleServer "[]"
      "''acme/api''" exampleIssue exampleEvent exampleEntry "[exampleException]" examplePlatform
      exampleException outerFrame middleFrame innerFrame]
  from inst[THEN conjunct1] a1 a2 a3 a4 a5
  have t: "fst (getIssueDetails examplePlatform eventUpstream exampleServer (Some args) []) =
        Inr \<lparr>text_of =
               detailsHead examplePlatform ''acme/api'' exampleIssue
                 @ ''## Error Message'' @ nl @ nl
                 @ tmpl (js_or (metadata_value exampleIssue) (Some (message exampleEvent))) @ nl @ nl
                 @ ''## Stack Trace'' @ nl @ nl @ backticks @ nl
                 @ concat (map exceptionBlock (rev [exampleException]))
                 @ backticks @ nl @ nl
                 @ appendBreadcrumbs examplePlatform [] exampleEvent @ appendTags [] exampleEvent
                 @ detailsFoot exampleIssue,
             isError = False\<rparr>"
    by blast
  from inst[THEN conjunct2, THEN conjunct1] a6
  have b: "exceptionBlock exampleException
          = exceptionLine exampleException @ frameLine innerFrame @ frameLine middleFrame @ frameLine outerFrame"
    by blast
  have l: "exceptionLine exampleException = ''TypeError: x is undefined'' @ nl"
    "frameLine innerFrame = ''  at inner (c.js:3)'' @ nl"
    "frameLine middleFrame = ''  at middle (b.js:2)'' @ nl"
    "frameLine outerFrame = ''  at outer (a.js:1)'' @ nl"
    by code_simp+
  have m: "tmpl (js_or (metadata_value exampleIssue) (Some (message exampleEvent))) = ''x is undefined''"
    by code_simp
  have e: "appendBreadcrumbs examplePlatform [] exampleEvent = []" "appendTags [] exampleEvent = []"
    by code_simp+
  have c: "concat (map exceptionBlock (rev [exampleException])) = exceptionBlock exampleException"
    by simp
  from t have "fst (getIssueDetails examplePlatform eventUpstream exampleServer (Some args) []) =
        Inr \<lparr>text_of =
               detailsHead examplePlatform ''acme/api'' exampleIssue
                 @ ''## Error Message'' @ nl @ nl @ ''x is undefined'' @ nl @ nl
                 @ ''## Stack Trace'' @ nl @ nl @ backticks @ nl
                 @ ''TypeError: x is undefined'' @ nl
                 @ ''  at inner (c.js:3)'' @ nl
                 @ ''  at middle (b.js:2)'' @ nl
                 @ ''  at outer (a.js:1)'' @ nl
                 @ backticks @ nl @ nl
                 @ detailsFoot exampleIssue,
             isError = False\<rparr>"
    unfolding c b l m e by simp
  with a1 a2 a4 a5 a6 show ?thesis unfolding args_def by (intro conjI) simp_all
qed

section \<open>Detail and resolve see only the fetched issues\<close>

lemma find_None: "find P xs = None \<longleftrightarrow> (\<forall>x\<in>set xs. \<not> P x)"
  by (induction xs) auto

lemma findIssue_None: "findIssue issueId m = None \<longleftrightarrow> notFetched issueId m"
proof (induction m)
  case Nil
  show ?case by (simp add: notFetched_def)
next
  case (Cons p m)
  obtain project issues where p: "p = (project, issues)" by (cases p)
  show ?case
  proof (cases "find (\<lambda>i. issue_id i = issueId \<or> shortId i = issueId) issues")
    case None
    then have "\<forall>i\<in>set issues. issue_id i \<noteq> issueId \<and> shortId i \<noteq> issueId"
      by (simp add: find_None)
    with None p Cons show ?thesis by (simp add: notFetched_def)
  next
    case (Some i)
    then have "\<not> (\<forall>i\<in>set issues. issue_id i \<noteq> issueId \<and> shortId i \<noteq> issueId)"
      using find_None[of "\<lambda>i. issue_id i = issueId \<or> shortId i = issueId" issues] by auto
    with Some p show ?thesis by (auto simp: notFetched_def)
  qed
qed

lemma isBulkQuery_issueQuery: "isBulkQuery (GetOrgIssues org (issueQuery project))"
  by (simp add: isBulkQuery_def issueQuery_def)

lemma fetchProjectIssues_log:
  "\<exists>ws. snd (fetchProjectIssues up slug w) = w @ ws \<and> list_all isBulkQuery ws"
proof -
  have "snd (fetchProjectIssues up slug w) = w
        \<or> (\<exists>org project. snd (fetchProjectIssues up slug w) = w @ [GetOrgIssues org (issueQuery project)])"
    by (auto simp: fetchProjectIssues_def split: prod.splits option.splits sum.splits)
  then show ?thesis
  proof
    assume "snd (fetchProjectIssues up slug w) = w"
    then have "snd (fetchProjectIssues up slug w) = w @ [] \<and> list_all isBulkQuery []" by simp
    then show ?thesis by blast
  next
    assume "\<exists>org project. snd (fetchProjectIssues up slug w) = w @ [GetOrgIssues org (issueQuery project)]"
    then obtain org project where "snd (fetchProjectIssues up slug w) = w @ [GetOrgIssues org (issueQuery project)]"
      by blast
    then have "snd (fetchProjectIssues up slug w) = w @ [GetOrgIssues org (issueQuery project)]
               \<and> list_all isBulkQuery [GetOrgIssues org (issueQuery project)]"
      by (simp add: isBulkQuery_issueQuery)
    then show ?thesis by blast
  qed
qed

lemma loop_log:
  "\<exists>ws. snd (fetchAllIssues_loop up slugs m w) = w @ ws \<and> list_all isBulkQuery ws"
proof (induction slugs arbitrary: m w)
  case Nil
  have "snd (fetchAllIssues_loop up [] m w) = w @ [] \<and> list_all isBulkQuery []" by simp
  then show ?case by blast
next
  case (Cons slug rest)
  from fetchProjectIssues_log[of up slug w] obtain ws where
    a: "snd (fetchProjectIssues up slug w) = w @ ws" "list_all isBulkQuery ws" by blast
  from Cons.IH obtain ws' where
    b: "snd (fetchAllIssues_loop up rest
               (map_set slug (case fst (fetchProjectIssues up slug w) of Inl e \<Rightarrow> [] | Inr issues \<Rightarrow> issues) m)
               (w @ ws)) = (w @ ws) @ ws'" "list_all isBulkQuery ws'"
    by blast
  have "snd (fetchAllIssues_loop up (slug # rest) m w) = w @ (ws @ ws') \<and> list_all isBulkQuery (ws @ ws')"
    unfolding loop_step a(1) using a(2) b by simp
  then show ?case by blast
qed

lemma fetchAllIssues_log:
  "\<exists>ws. snd (fetchAllIssues up config w) = w @ ws \<and> list_all isBulkQuery ws"
  unfolding fetchAllIssues_def by (rule loop_log)

lemma not_found_details:
  assumes "arg_issueId args = Some issueId" "issueId \<noteq> []"
    "notFetched issueId (fst (fetchAllIssues up (mcp_sentryClient srv) w))"
  shows "getIssueDetails pf up srv (Some args) w =
           (Inl (Error (''Issue not found: '' @ issueId)), snd (fetchAllIssues up (mcp_sentryClient srv) w))"
proof -
  obtain m w1 where f: "fetchAllIssues up (mcp_sentryClient srv) w = (m, w1)"
    by (cases "fetchAllIssues up (mcp_sentryClient srv) w")
  with assms(3) have "findIssue issueId m = None" by (simp add: findIssue_None)
  with assms(1,2) f show ?thesis by (simp add: getIssueDetails_def truthy_def tmpl_def)
qed

lemma not_found_resolve:
  assumes "arg_issueId args = Some issueId" "issueId \<noteq> []"
    "notFetched issueId (fst (fetchAllIssues up (mcp_sentryClient srv) w))"
  shows "resolveIssue up srv (Some args) w =
           (Inl (Error (''Issue not found: '' @ issueId)), snd (fetchAllIssues up (mcp_sentryClient srv) w))"
proof -
  obtain m w1 where f: "fetchAllIssues up (mcp_sentryClient srv) w = (m, w1)"
    by (cases "fetchAllIssues up (mcp_sentryClient srv) w")
  with assms(3) have "findIssue issueId m = None" by (simp add: findIssue_None)
  with assms(1,2) f show ?thesis by (simp add: resolveIssue_def truthy_def tmpl_def)
qed

lemma callTool_details:
  "callTool pf up srv ''sentry_get_issue_details'' (Some args) w =
     (case getIssueDetails pf up srv (Some args) w of
        (Inr result, w') \<Rightarrow> (result, srv, w')
      | (Inl e, w') \<Rightarrow> (\<lparr>text_of = ''Error: '' @ errorMessage e, isError = True\<rparr>, srv, w'))"
  by (simp add: callTool_def dispatch_def split: prod.splits sum.splits)

lemma callTool_resolve:
  "callTool pf up srv ''sentry_resolve_issue'' (Some args) w =
     (case resolveIssue up srv (Some args) w of
        (Inr result, w') \<Rightarrow> (result, srv, w')
      | (Inl e, w') \<Rightarrow> (\<lparr>text_of = ''Error: '' @ errorMessage e, isError = True\<rparr>, srv, w'))"
  by (simp add: callTool_def dispatch_def split: prod.splits sum.splits)

text \<open>
  Claim C10. \<open>getIssueDetails\<close> and \<open>resolveIssue\<close> look the identifier up in the result
  of the bulk fetch they have just run. For an identifier that is the id or the short
  id of no fetched issue, both return the error result \<open>Issue not found\<close>, and the
  requests they have sent are those of the bulk fetch alone: each is the issue query of
  an organisation for the unresolved issues of a project, with a 14-day stats period and
  a limit of 25; no event is fetched and no issue is updated. (A call whose argument
  object has no identifier, or the empty string, is rejected before the fetch with
  \<open>issueId is required\<close>.)
\<close>

theorem unfetched_issue_not_found:
  "(arg_issueId args = Some issueId \<and> issueId \<noteq> []
    \<and> notFetched issueId (fst (fetchAllIssues up (mcp_sentryClient srv) w)) \<longrightarrow>
      callTool pf up srv ''sentry_get_issue_details'' (Some args) w =
        (\<lparr>text_of = ''Error: Issue not found: '' @ issueId, isError = True\<rparr>, srv,
         snd (fetchAllIssues up (mcp_sentryClient srv) w))
      \<and> callTool pf up srv ''sentry_resolve_issue'' (Some args) w =
        (\<lparr>text_of = ''Error: Issue not found: '' @ issueId, isError = True\<rparr>, srv,
         snd (fetchAllIssues up (mcp_sentryClient srv) w)))
   \<and> (\<exists>ws. snd (fetchAllIssues up (mcp_sentryClient srv) w) = w @ ws \<and> list_all isBulkQuery ws)
   \<and> (\<not> truthy (arg_issueId args) \<longrightarrow>
        callTool pf up srv ''sentry_get_issue_details'' (Some args) w =
          (\<lparr>text_of = ''Error: issueId is required'', isError = True\<rparr>, srv, w)
        \<and> callTool pf up srv ''sentry_resolve_issue'' (Some args) w =
          (\<lparr>text_of = ''Error: issueId is required'', isError = True\<rparr>, srv, w))"
proof (intro conjI impI)
  assume a: "arg_issueId args = Some issueId \<and> issueId \<noteq> []
    \<and> notFetched issueId (fst (fetchAllIssues up (mcp_sentryClient srv) w))"
  then show "callTool pf up srv ''sentry_get_issue_details'' (Some args) w =
        (\<lparr>text_of = ''Error: Issue not found: '' @ issueId, isError = True\<rparr>, srv,
         snd (fetchAllIssues up (mcp_sentryClient srv) w))"
    unfolding callTool_details using not_found_details[of args issueId up srv w pf]
    by (simp add: errorMessage_def)
  from a show "callTool pf up srv ''sentry_resolve_issue'' (Some args) w =
        (\<lparr>text_of = ''Error: Issue not found: '' @ issueId, isError = True\<rparr>, srv,
         snd (fetchAllIssues up (mcp_sentryClient srv) w))"
    unfolding callTool_resolve using not_found_resolve[of args issueId up srv w]
    by (simp add: errorMessage_def)
next
  show "\<exists>ws. snd (fetchAllIssues up (mcp_sentryClient srv) w) = w @ ws \<and> list_all isBulkQuery ws"
    by (rule fetchAllIssues_log)
next
  assume n: "\<not> truthy (arg_issueId args)"
  then show "callTool pf up srv ''sentry_get_issue_details'' (Some args) w =
          (\<lparr>text_of = ''Error: issueId is required'', isError = True\<rparr>, srv, w)"
    unfolding callTool_details by (simp add: getIssueDetails_def errorMessage_def)
  from n show "callTool pf up srv ''sentry_resolve_issue'' (Some args) w =
          (\<lparr>text_of = ''Error: issueId is required'', isError = True\<rparr>, srv, w)"
    unfolding callTool_resolve by (simp add: resolveIssue_def errorMessage_def)
qed

theorem unfetched_issue_not_found_witness:
  "arg_issueId (noArgs\<lparr>arg_issueId := Some ''9999''\<rparr>) = Some ''9999'' \<and> ''9999'' \<noteq> []
   \<and> notFetched ''9999'' (fst (fetchAllIssues exampleUpstream (mcp_sentryClient exampleServer) []))
   \<and> fst (callTool examplePlatform exampleUpstream exampleServer ''sentry_get_issue_details''
            (Some (noArgs\<lparr>arg_issueId := Some ''9999''\<rparr>)) [])
       = \<lparr>text_of = ''Error: Issue not found: 9999'', isError = True\<rparr>
   \<and> fst (callTool examplePlatform exampleUpstream exampleServer ''sentry_resolve_issue''
            (Some (noArgs\<lparr>arg_issueId := Some ''9999''\<rparr>)) [])
       = \<lparr>text_of = ''Error: Issue not found: 9999'', isError = True\<rparr>
   \<and> \<not> truthy (arg_issueId noArgs)
   \<and> callTool examplePlatform exampleUpstream exampleServer ''sentry_resolve_issue'' (Some noArgs) []
       = (\<lparr>text_of = ''Error: issueId is required'', isError = True\<rparr>, exampleServer, [])"
proof -
  define args where "args = noArgs\<lparr>arg_issueId := Some ''9999''\<rparr>"
  have a1: "arg_issueId args = Some ''9999'' \<and> ''9999'' \<noteq> []" unfolding args_def by code_simp
  have "findIssue ''9999'' (fst (fetchAllIssues exampleUpstream (mcp_sentryClient exampleServer) [])) = None"
    by code_simp
  then have a2: "notFetched ''9999'' (fst (fetchAllIssues exampleUpstream (mcp_sentryClient exampleServer) []))"
    by (simp add: findIssue_None)
  note inst = unfetched_issue_not_found[of args "''9999''" exampleUpstream exampleServer "[]" examplePlatform]
  from inst[THEN conjunct1] a1 a2
  have d: "callTool examplePlatform exampleUpstream exampleServer ''sentry_get_issue_details'' (Some args) [] =
        (\<lparr>text_of = ''Error: Issue not found: '' @ ''9999'', isError = True\<rparr>, exampleServer,
         snd (fetchAllIssues exampleUpstream (mcp_sentryClient exampleServer) []))"
    and r: "callTool examplePlatform exampleUpstream exampleServer ''sentry_resolve_issue'' (Some args) [] =
        (\<lparr>text_of = ''Error: Issue not found: '' @ ''9999'', isError = True\<rparr>, exampleServer,
         snd (fetchAllIssues exampleUpstream (mcp_sentryClient exampleServer) []))"
    by blast+
  have n: "\<not> truthy (arg_issueId noArgs)" by code_simp
  from unfetched_issue_not_found[of noArgs "''9999''" exampleUpstream exampleServer "[]" examplePlatform,
      THEN conjunct2, THEN conjunct2] n
  have q: "callTool examplePlatform exampleUpstream exampleServer ''sentry_resolve_issue'' (Some noArgs) []
       = (\<lparr>text_of = ''Error: issueId is required'', isError = True\<rparr>, exampleServer, [])"
    by blast
  from a1 a2 d r n q show ?thesis unfolding args_def by simp
qed

section \<open>A status name that the task's list does not have\<close>








section \<open>A task comment without board configuration\<close>

lemma callTool_comment:
  "callTool pf up srv ''clickup_add_comment'' args w =
     (case addClickUpComment up srv args w of
        (Inr result, srv', w') \<Rightarrow> (result, srv', w')
      | (Inl e, srv', w') \<Rightarrow> (\<lparr>text_of = ''Error: '' @ errorMessage e, isError = True\<rparr>, srv', w'))"
  by (simp add: callTool_def dispatch_def split: prod.splits sum.splits)

lemma unconfigured_server:
  assumes "managerClickUpConfig sm = None"
    "\<not> (truthy (CLICKUP_API_TOKEN env) \<and> truthy (CLICKUP_TEAM_ID env))"
  shows "new_SentryMCPServer pf env config sm =
           Inr \<lparr>mcp_sentryClient = config, mcp_clickUpClient = None, storeManager = sm,
                mcp_clickUpConfig = None\<rparr>"
  using assms by (auto simp: new_SentryMCPServer_def)

lemma unconfigured_stays:
  assumes "mcp_clickUpClient srv = None" "managerClickUpConfig (storeManager srv) = None"
  shows "clientFromStoreManager srv = srv"
  using assms by (auto simp: clientFromStoreManager_def managerClickUpConfig_def split: option.splits)

lemma addClickUpComment_unconfigured:
  assumes "mcp_clickUpClient srv = None" "managerClickUpConfig (storeManager srv) = None"
  shows "addClickUpComment up srv arguments w =
           (Inl (Error (case arguments of
                          None \<Rightarrow> cannotReadProperty ''taskId''
                        | Some args \<Rightarrow>
                            if truthy (arg_taskId args) \<and> truthy (arg_comment args)
                            then ''ClickUp is not configured''
                            else ''taskId and comment are required'')), srv, w)"
  by (cases arguments)
     (simp_all add: addClickUpComment_def Let_def unconfigured_stays[OF assms] assms(1))

text \<open>
  Claim C8, as the code has it. On a server that has no ClickUp client and whose store
  manager, if it has one, has no ClickUp configuration, a \<open>clickup_add_comment\<close> call
  returns an error result and sends no request. Its text is \<open>ClickUp is not configured\<close>
  when the call has a task id and a comment, both non-empty; it is
  \<open>taskId and comment are required\<close> when the call has an argument object in which either
  is missing or empty, since the arguments are checked before the client; and it is the
  message of the \<open>TypeError\<close> thrown on reading \<open>taskId\<close> when the call has no argument
  object. The constructor makes such a server when the store manager gives no
  configuration and the environment lacks the token or the team id.
\<close>

theorem add_comment_unconfigured:
  "(mcp_clickUpClient srv = None \<and> managerClickUpConfig (storeManager srv) = None \<longrightarrow>
      callTool pf up srv ''clickup_add_comment'' arguments w =
        (\<lparr>text_of =
            ''Error: '' @
              (case arguments of
                 None \<Rightarrow> cannotReadProperty ''taskId''
               | Some args \<Rightarrow>
                   if truthy (arg_taskId args) \<and> truthy (arg_comment args)
                   then ''ClickUp is not configured''
                   else ''taskId and comment are required''),
          isError = True\<rparr>, srv, w))
   \<and> (managerClickUpConfig sm = None
       \<and> \<not> (truthy (CLICKUP_API_TOKEN env) \<and> truthy (CLICKUP_TEAM_ID env)) \<longrightarrow>
        (\<exists>made. new_SentryMCPServer pf env config sm = Inr made
           \<and> mcp_clickUpClient made = None \<and> storeManager made = sm))"
proof (intro conjI impI)
  assume a: "mcp_clickUpClient srv = None \<and> managerClickUpConfig (storeManager srv) = None"
  then have "addClickUpComment up srv arguments w =
           (Inl (Error (case arguments of
                          None \<Rightarrow> cannotReadProperty ''taskId''
                        | Some args \<Rightarrow>
                            if truthy (arg_taskId args) \<and> truthy (arg_comment args)
                            then ''ClickUp is not configured''
                            else ''taskId and comment are required'')), srv, w)"
    by (intro addClickUpComment_unconfigured) simp_all
  then show "callTool pf up srv ''clickup_add_comment'' arguments w =
        (\<lparr>text_of =
            ''Error: '' @
              (case arguments of
                 None \<Rightarrow> cannotReadProperty ''taskId''
               | Some args \<Rightarrow>
                   if truthy (arg_taskId args) \<and> truthy (arg_comment args)
                   then ''ClickUp is not configured''
                   else ''taskId and comment are required''),
          isError = True\<rparr>, srv, w)"
    unfolding callTool_comment by (simp add: errorMessage_def)
next
  assume "managerClickUpConfig sm = None
       \<and> \<not> (truthy (CLICKUP_API_TOKEN env) \<and> truthy (CLICKUP_TEAM_ID env))"
  then have "new_SentryMCPServer pf env config sm =
           Inr \<lparr>mcp_sentryClient = config, mcp_clickUpClient = None, storeManager = sm,
                mcp_clickUpConfig = None\<rparr>"
    using unconfigured_server by blast
  then show "\<exists>made. new_SentryMCPServer pf env config sm = Inr made
           \<and> mcp_clickUpClient made = None \<and> storeManager made = sm"
    by simp
qed

text \<open>
  Claim C8 as stated (every such call returns the not-configured error) fails for a call
  with an empty task id: the result is the error about the required arguments.
\<close>

theorem add_comment_unconfigured_counterexample:
  "new_SentryMCPServer examplePlatform emptyEnv exampleConfig None = Inr exampleServer
   \<and> callTool examplePlatform failingUpstream exampleServer ''clickup_add_comment''
        (Some (noArgs\<lparr>arg_taskId := Some '''', arg_comment := Some ''Fixed in 1.2''\<rparr>)) []
       = (\<lparr>text_of = ''Error: taskId and comment are required'', isError = True\<rparr>, exampleServer, [])"
  by code_simp

theorem add_comment_unconfigured_witness:
  "managerClickUpConfig None = None
   \<and> \<not> (truthy (CLICKUP_API_TOKEN emptyEnv) \<and> truthy (CLICKUP_TEAM_ID emptyEnv))
   \<and> new_SentryMCPServer examplePlatform emptyEnv exampleConfig None = Inr exampleServer
   \<and> mcp_clickUpClient exampleServer = None
   \<and> managerClickUpConfig (storeManager exampleServer) = None
   \<and> callTool examplePlatform failingUpstream exampleServer ''clickup_add_comment''
        (Some (noArgs\<lparr>arg_taskId := Some ''t1'', arg_comment := Some ''Fixed in 1.2''\<rparr>)) []
       = (\<lparr>text_of = ''Error: ClickUp is not configured'', isError = True\<rparr>, exampleServer, [])
   \<and> callTool examplePlatform failingUpstream exampleServer ''clickup_add_comment'' None []
       = (\<lparr>text_of = ''Error: Cannot read properties of undefined (reading '' @ [CHR 0x27]
                      @ ''taskId'' @ [CHR 0x27] @ '')'',
           isError = True\<rparr>, exampleServer, [])"
proof -
  define args where "args = noArgs\<lparr>arg_taskId := Some ''t1'', arg_comment := Some ''Fixed in 1.2''\<rparr>"
  have h: "managerClickUpConfig None = None
   \<and> \<not> (truthy (CLICKUP_API_TOKEN emptyEnv) \<and> truthy (CLICKUP_TEAM_ID emptyEnv))"
    by code_simp
  have n: "new_SentryMCPServer examplePlatform emptyEnv exampleConfig None = Inr exampleServer"
    by code_simp
  note inst = add_comment_unconfigured[of exampleServer examplePlatform failingUpstream "Some args" "[]"
      None emptyEnv exampleConfig]
  from inst[THEN conjunct2] h
  obtain made where "new_SentryMCPServer examplePlatform emptyEnv exampleConfig None = Inr made"
    "mcp_clickUpClient made = None" "storeManager made = None"
    by blast
  with n have u: "mcp_clickUpClient exampleServer = None \<and> managerClickUpConfig (storeManager exampleServer) = None"
    by (simp add: managerClickUpConfig_def)
  have t: "truthy (arg_taskId args) \<and> truthy (arg_comment args)" unfolding args_def by code_simp
  from inst[THEN conjunct1] u
  have "callTool examplePlatform failingUpstream exampleServer ''clickup_add_comment'' (Some args) [] =
        (\<lparr>text_of =
            ''Error: '' @
              (case Some args of
                 None \<Rightarrow> cannotReadProperty ''taskId''
               | Some args \<Rightarrow>
                   if truthy (arg_taskId args) \<and> truthy (arg_comment args)
                   then ''ClickUp is not configured''
                   else ''taskId and comment are required''),
          isError = True\<rparr>, exampleServer, [])"
    by blast
  with t have c: "callTool examplePlatform failingUpstream exampleServer ''clickup_add_comment'' (Some args) []
       = (\<lparr>text_of = ''Error: ClickUp is not configured'', isError = True\<rparr>, exampleServer, [])"
    by simp
  from add_comment_unconfigured[of exampleServer examplePlatform failingUpstream None "[]"
      None emptyEnv exampleConfig, THEN conjunct1] u
  have d: "callTool examplePlatform failingUpstream exampleServer ''clickup_add_comment'' None []
       = (\<lparr>text_of = ''Error: Cannot read properties of undefined (reading '' @ [CHR 0x27]
                      @ ''taskId'' @ [CHR 0x27] @ '')'',
           isError = True\<rparr>, exampleServer, [])"
    by (simp add: cannotReadProperty_def)
  from h n u c d show ?thesis unfolding args_def by simp
qed

section \<open>The search operation\<close>

text \<open>
  What holds of \<open>searchIssues\<close>: every returned entry is a fetched issue whose title,
  short id or culprit, in lower case, includes the lower-cased search term (or the term is
  empty) and whose project passes the filter; with a positive limit there are at most
  that many entries, and at most 25 without a limit; a call with an argument object never
  fails, and without entries its text is the no-issues message.
\<close>

lemma str_includes_iff: "str_includes hay needle \<longleftrightarrow> (\<exists>pre suf. hay = pre @ needle @ suf)"
proof (induction hay)
  case Nil
  show ?case by auto
next
  case (Cons c cs)
  show ?case
  proof
    assume "str_includes (c # cs) needle"
    then consider "take (length needle) (c # cs) = needle" | "str_includes cs needle" by auto
    then show "\<exists>pre suf. c # cs = pre @ needle @ suf"
    proof cases
      case 1
      then have "c # cs = [] @ needle @ drop (length needle) (c # cs)"
        by (metis append_Nil append_take_drop_id)
      then show ?thesis by blast
    next
      case 2
      with Cons obtain pre suf where "cs = pre @ needle @ suf" by blast
      then have "c # cs = (c # pre) @ needle @ suf" by simp
      then show ?thesis by blast
    qed
  next
    assume "\<exists>pre suf. c # cs = pre @ needle @ suf"
    then obtain pre suf where e: "c # cs = pre @ needle @ suf" by blast
    show "str_includes (c # cs) needle"
    proof (cases pre)
      case Nil
      with e have "take (length needle) (c # cs) = needle" by simp
      then show ?thesis by simp
    next
      case (Cons d pre')
      with e have "cs = pre' @ needle @ suf" by simp
      with Cons.IH have "str_includes cs needle" by blast
      then show ?thesis by simp
    qed
  qed
qed

lemma collectIssues_member:
  "(project, issue) \<in> set (collectIssues pf t filt m) \<longleftrightarrow>
     (\<exists>issues. (project, issues) \<in> set m \<and> issue \<in> set issues \<and> matchesSearch pf t issue
               \<and> (truthy filt \<longrightarrow> filt = Some project))"
proof (induction m)
  case Nil
  show ?case by simp
next
  case (Cons p m)
  obtain q issues where p: "p = (q, issues)" by (cases p)
  show ?case unfolding p using Cons.IH by (cases "truthy filt \<and> filt \<noteq> Some q") auto
qed

lemma set_slice0: "set (slice0 n xs) \<subseteq> set xs"
  by (auto simp: slice0_def dest: in_set_takeD)

lemma length_slice0: "0 < n \<Longrightarrow> int (length (slice0 n xs)) \<le> n"
  by (simp add: slice0_def)

lemma limited_member:
  assumes "(project, issue) \<in> set (limitedIssues pf args m)"
  shows "matchesSearch pf (searchTermOf pf args) issue
         \<and> (truthy (arg_project args) \<longrightarrow> arg_project args = Some project)
         \<and> (\<exists>issues. (project, issues) \<in> set m \<and> issue \<in> set issues)"
proof -
  from assms have "(project, issue) \<in> set (collectIssues pf (searchTermOf pf args) (arg_project args) m)"
    unfolding limitedIssues_def by (rule set_slice0[THEN subsetD])
  then obtain issues where "(project, issues) \<in> set m" "issue \<in> set issues"
    "matchesSearch pf (searchTermOf pf args) issue"
    "truthy (arg_project args) \<longrightarrow> arg_project args = Some project"
    unfolding collectIssues_member by (elim exE conjE)
  then show ?thesis by (intro conjI exI[of _ issues])
qed

lemma limited_length:
  "0 < searchLimit (arg_limit args) \<Longrightarrow>
     int (length (limitedIssues pf args m)) \<le> searchLimit (arg_limit args)"
  unfolding limitedIssues_def by (rule length_slice0)

lemma limited_default: "arg_limit args = None \<Longrightarrow> length (limitedIssues pf args m) \<le> 25"
  by (simp add: limitedIssues_def slice0_def searchLimit_def)

lemma search_never_fails:
  "\<exists>r. fst (searchIssues pf up srv (Some args) w) = Inr r \<and> \<not> isError r
       \<and> (limitedIssues pf args (fst (fetchAllIssues up (mcp_sentryClient srv) w)) = [] \<longrightarrow>
            text_of r = noIssuesText)"
  by (cases "fetchAllIssues up (mcp_sentryClient srv) w") (simp add: searchIssues_def Let_def)

text \<open>
  Claim C6 says that the number of returned entries is at most the limit the caller
  supplies. The code breaks this for the limits \<open>0\<close> and below: \<open>args.limit || 25\<close>
  replaces the limit \<open>0\<close> by 25, and \<open>slice(0, limit)\<close> with a negative limit drops that
  many entries from the end and returns the rest. With limit \<open>0\<close> and one matching issue
  the call returns that issue; with limit \<open>-1\<close> and two matching issues it returns one.
\<close>

theorem search_limit_zero_or_negative:
  "limitedIssues examplePlatform (noArgs\<lparr>arg_limit := Some 0\<rparr>) (fst (fetchAllIssues exampleUpstream exampleConfig []))
     = [(''acme/api'', exampleIssue)]
   \<and> fst (searchIssues examplePlatform exampleUpstream exampleServer (Some (noArgs\<lparr>arg_limit := Some 0\<rparr>)) [])
     = Inr \<lparr>text_of = renderEntry examplePlatform (''acme/api'', exampleIssue), isError = False\<rparr>
   \<and> limitedIssues examplePlatform (noArgs\<lparr>arg_limit := Some (- 1)\<rparr>) [(''acme/api'', [exampleIssue, exampleIssue])]
     = [(''acme/api'', exampleIssue)]"
  by code_simp

end
